theory Spec2Isabelle
  imports Complex_Main "HOL-Library.Multiset"
begin

section \<open>TaskWeather: tasks with a date and a place, and the weather for them\<close>

text \<open>
  The program is an Express application (\<^verbatim>\<open>src/index.js\<close>) over one Mongoose model
  (\<^verbatim>\<open>src/models/Task.js\<close>). Every route handler is embedded as a function from the
  request and the state of the world it reads (the store, the environment, the weather
  provider) to the reply it sends and the state it leaves. An exception is a value
  (\<open>Inl\<close> of a sum), and each \<^verbatim>\<open>try { ... } catch\<close> of the source is a case
  distinction on such a value.

  JavaScript strings are lists of code units; the model covers the code units below 256.
  The numbers that the handlers compute dates with are doubles whose value is an integer,
  an infinity or \<^verbatim>\<open>NaN\<close>; every operation on them rounds its exact result to the
  nearest double, as IEEE 754 does. The numbers of the weather provider are finite
  doubles, modelled by the rationals they are. What the libraries do (Mongoose's
  validators, casts and queries, axios, the built-ins of JavaScript as V8 implements
  them) is modelled after their documentation and sources.
\<close>

subsection \<open>The JavaScript built-ins the handlers call\<close>

text \<open>
  A number: \<^verbatim>\<open>NaN\<close>, a double with an integer value, or an infinity (\<open>Infinity True\<close>
  is the negative one). The two zeros are not told apart.
\<close>

datatype number = NaN | Num int | Infinity bool

text \<open>
  The double nearest to an integer: integers of at most 53 bits are doubles; a longer one
  keeps its 53 leading bits, rounded to nearest, a tie going to the even significand, and
  an integer that rounds to \<open>2 ^ 1024\<close> or more is an infinity.
\<close>

function bit_length :: "int \<Rightarrow> nat" where
  "bit_length a = (if a \<le> 0 then 0 else Suc (bit_length (a div 2)))"
  by pat_completeness auto
termination
  by (relation "measure nat") auto

declare bit_length.simps [simp del]

definition fl :: "int \<Rightarrow> number" where
  "fl n =
     (let a = \<bar>n\<bar>;
          e = bit_length a - 53;
          q = a div 2 ^ e;
          r = a mod 2 ^ e;
          v = (if 2 * r > 2 ^ e \<or> (2 * r = 2 ^ e \<and> odd q) then q + 1 else q) * 2 ^ e
      in if bit_length v > 1024 then Infinity (n < 0)
         else Num (if n < 0 then - v else v))"

text \<open>Addition and multiplication of such numbers.\<close>

fun d_add :: "number \<Rightarrow> number \<Rightarrow> number" where
  "d_add (Num a) (Num b) = fl (a + b)"
| "d_add (Infinity s) (Infinity t) = (if s = t then Infinity s else NaN)"
| "d_add (Infinity s) (Num b) = Infinity s"
| "d_add (Num a) (Infinity t) = Infinity t"
| "d_add _ _ = NaN"

fun d_mul :: "number \<Rightarrow> number \<Rightarrow> number" where
  "d_mul (Num a) (Num b) = fl (a * b)"
| "d_mul (Infinity s) (Infinity t) = Infinity (s \<noteq> t)"
| "d_mul (Infinity s) (Num b) = (if b = 0 then NaN else Infinity (s \<noteq> (b < 0)))"
| "d_mul (Num a) (Infinity t) = (if a = 0 then NaN else Infinity (t \<noteq> (a < 0)))"
| "d_mul _ _ = NaN"

fun isfinite :: "number \<Rightarrow> bool" where
  "isfinite (Num n) = True"
| "isfinite _ = False"

text \<open>\<^verbatim>\<open>String.prototype.split(sep)\<close> for a separator of one code unit.\<close>

fun split :: "char \<Rightarrow> string \<Rightarrow> string list" where
  "split sep [] = [[]]"
| "split sep (c # cs) =
     (if c = sep then [] # split sep cs
      else (case split sep cs of
              [] \<Rightarrow> [[c]]
            | p # ps \<Rightarrow> (c # p) # ps))"

text \<open>Reading an array element: an index past the end reads \<^verbatim>\<open>undefined\<close> (\<open>None\<close>).\<close>

fun element :: "'a list \<Rightarrow> nat \<Rightarrow> 'a option" where
  "element [] i = None"
| "element (x # xs) 0 = Some x"
| "element (x # xs) (Suc i) = element xs i"

text \<open>
  \<^verbatim>\<open>parseInt(string)\<close> with no radix (ECMA-262, 19.2.5): leading white space is
  dropped, then an optional sign, then an optional \<^verbatim>\<open>0x\<close> that selects radix 16; the
  longest run of digits of the radix is the value, as the nearest double, and an empty
  run is \<^verbatim>\<open>NaN\<close>.
\<close>

definition isWhiteSpace :: "char \<Rightarrow> bool" where
  "isWhiteSpace c = (of_char c \<in> set [9, 10, 11, 12, 13, 32, 160 :: nat])"

definition digit_of :: "char \<Rightarrow> nat" where
  "digit_of c =
     (let n = of_char c in
      if 48 \<le> n \<and> n \<le> 57 then n - 48
      else if 97 \<le> n \<and> n \<le> 122 then n - 87
      else if 65 \<le> n \<and> n \<le> 90 then n - 55
      else 36)"

definition parseInt :: "string \<Rightarrow> number" where
  "parseInt inputString =
     (let S = dropWhile isWhiteSpace inputString;
          sign = (if take 1 S = ''-'' then - 1 else 1 :: int);
          S1 = (if take 1 S = ''+'' \<or> take 1 S = ''-'' then drop 1 S else S);
          hex = (take 2 S1 = ''0x'' \<or> take 2 S1 = ''0X'');
          R = (if hex then 16 else 10 :: nat);
          S2 = (if hex then drop 2 S1 else S1);
          Z = takeWhile (\<lambda>c. digit_of c < R) S2
      in if Z = [] then NaN
         else fl (sign * foldl (\<lambda>a c. a * int R + int (digit_of c)) 0 Z))"

text \<open>
  \<^verbatim>\<open>parseInt\<close> of a value that may be \<^verbatim>\<open>undefined\<close>: the argument is converted to a
  string first, and \<^verbatim>\<open>"undefined"\<close> has no digits.
\<close>

definition parseInt_value :: "string option \<Rightarrow> number" where
  "parseInt_value v = (case v of None \<Rightarrow> parseInt ''undefined'' | Some s \<Rightarrow> parseInt s)"

text \<open>
  \<^verbatim>\<open>Date.UTC\<close> (ECMA-262, 21.4.3.4) with its abstract operations, as V8, the
  engine of Node, computes them. \<^verbatim>\<open>MakeDay\<close> is specified by "find a time value
  whose year is \<open>ym\<close>, whose month is \<open>mn\<close> and whose date is 1, and return
  \<^verbatim>\<open>NaN\<close> if that is not possible"; V8 sets the bounds on year and month, counts the
  days up to the month in integers and adds the date as a double.
\<close>

definition msPerDay :: int where "msPerDay = 86400000"
definition msPerHour :: int where "msPerHour = 3600000"
definition msPerMinute :: int where "msPerMinute = 60000"
definition msPerSecond :: int where "msPerSecond = 1000"

definition DaysInYear :: "int \<Rightarrow> int" where
  "DaysInYear y =
     (if y mod 4 \<noteq> 0 then 365
      else if y mod 100 \<noteq> 0 then 366
      else if y mod 400 \<noteq> 0 then 365
      else 366)"

definition DayFromYear :: "int \<Rightarrow> int" where
  "DayFromYear y =
     365 * (y - 1970) + (y - 1969) div 4 - (y - 1901) div 100 + (y - 1601) div 400"

definition DayFromMonth :: "int \<Rightarrow> bool \<Rightarrow> int" where
  "DayFromMonth mn leap =
     (if leap then [0, 31, 60, 91, 121, 152, 182, 213, 244, 274, 305, 335] ! nat mn
      else [0, 31, 59, 90, 120, 151, 181, 212, 243, 273, 304, 334] ! nat mn)"

fun MakeFullYear :: "number \<Rightarrow> number" where
  "MakeFullYear (Num y) = (if 0 \<le> y \<and> y \<le> 99 then Num (1900 + y) else Num y)"
| "MakeFullYear y = y"

fun MakeDay :: "number \<Rightarrow> number \<Rightarrow> number \<Rightarrow> number" where
  "MakeDay (Num year) (Num month) (Num date) =
     (if - 1000000 \<le> year \<and> year \<le> 1000000 \<and> - 10000000 \<le> month \<and> month \<le> 10000000
      then (let ym = year + month div 12;
                mn = month mod 12;
                day_from_year = DayFromYear ym + DayFromMonth mn (DaysInYear ym = 366)
            in d_add (Num (day_from_year - 1)) (Num date))
      else NaN)"
| "MakeDay _ _ _ = NaN"

definition MakeTime :: "number \<Rightarrow> number \<Rightarrow> number \<Rightarrow> number \<Rightarrow> number" where
  "MakeTime hour minute sec ms =
     (if isfinite hour \<and> isfinite minute \<and> isfinite sec \<and> isfinite ms
      then d_add (d_add (d_add (d_mul hour (Num msPerHour)) (d_mul minute (Num msPerMinute)))
                   (d_mul sec (Num msPerSecond))) ms
      else NaN)"

definition MakeDate :: "number \<Rightarrow> number \<Rightarrow> number" where
  "MakeDate day time =
     (if isfinite day \<and> isfinite time then d_add time (d_mul day (Num msPerDay)) else NaN)"

fun TimeClip :: "number \<Rightarrow> number" where
  "TimeClip (Num time) = (if \<bar>time\<bar> \<le> 8640000000000000 then Num time else NaN)"
| "TimeClip _ = NaN"

text \<open>
  \<^verbatim>\<open>Date.UTC(year, month, day, hours, minutes)\<close>; the call with three arguments is the
  one with hours and minutes \<open>0\<close>.
\<close>

definition Date_UTC :: "number \<Rightarrow> number \<Rightarrow> number \<Rightarrow> number \<Rightarrow> number \<Rightarrow> number" where
  "Date_UTC year month date hours minutes =
     TimeClip (MakeDate (MakeDay (MakeFullYear year) month date)
                        (MakeTime hours minutes (Num 0) (Num 0)))"

text \<open>\<^verbatim>\<open>new Date(value)\<close> keeps the time value \<^verbatim>\<open>TimeClip(value)\<close>.\<close>

definition new_Date :: "number \<Rightarrow> number" where
  "new_Date v = TimeClip v"

text \<open>\<^verbatim>\<open>x - 1\<close> on a number.\<close>

definition minus_one :: "number \<Rightarrow> number" where
  "minus_one x = d_add x (Num (- 1))"

text \<open>
  \<^verbatim>\<open>Math.round\<close> on a finite number: the nearest integer, a tie going towards
  \<open>+\<infinity>\<close>. A double is a rational, and the operation is exact on it.
\<close>

definition Math_round :: "rat \<Rightarrow> int" where
  "Math_round x = \<lfloor>x + 1 / 2\<rfloor>"

text \<open>A non-negative integer in a template literal: its decimal numeral.\<close>

function Number_toString :: "nat \<Rightarrow> string" where
  "Number_toString n =
     (if n < 10 then [char_of (48 + n)]
      else Number_toString (n div 10) @ [char_of (48 + n mod 10)])"
  by pat_completeness auto
termination
  by (relation "measure id") auto

declare Number_toString.simps [simp del]

text \<open>
  \<^verbatim>\<open>encodeURIComponent\<close>: every code unit but letters, digits and
  \<^verbatim>\<open>- _ . ! ~ * ' ( )\<close> is replaced by the percent-escapes of its UTF-8 bytes.
\<close>

definition unreserved :: "char \<Rightarrow> bool" where
  "unreserved c =
     (let n = (of_char c :: nat) in
      (48 \<le> n \<and> n \<le> 57) \<or> (65 \<le> n \<and> n \<le> 90) \<or> (97 \<le> n \<and> n \<le> 122)
      \<or> c \<in> set ''-_.!~*()'' \<or> n = 39)"

definition percent :: "nat \<Rightarrow> string" where
  "percent b = [CHR ''%'', ''0123456789ABCDEF'' ! (b div 16), ''0123456789ABCDEF'' ! (b mod 16)]"

definition encode_unit :: "char \<Rightarrow> string" where
  "encode_unit c =
     (let n = (of_char c :: nat) in
      if unreserved c then [c]
      else if n < 128 then percent n
      else percent (192 + n div 64) @ percent (128 + n mod 64))"

definition encodeURIComponent :: "string \<Rightarrow> string" where
  "encodeURIComponent s = concat (map encode_unit s)"

text \<open>Truthiness of a value that is a string, \<^verbatim>\<open>undefined\<close> or \<^verbatim>\<open>null\<close>.\<close>

fun truthy :: "string option \<Rightarrow> bool" where
  "truthy None = False"
| "truthy (Some s) = (s \<noteq> [])"

subsection \<open>Exceptions\<close>

text \<open>
  An exception object, with the properties the handlers read: \<^verbatim>\<open>error.response\<close> is
  the HTTP status of the provider's answer when there was one, \<^verbatim>\<open>error.request\<close>
  tells whether a request had been sent.
\<close>

record js_error =
  name :: string
  message :: string
  code :: "string option"
  response :: "nat option"
  request :: bool

definition Error :: "string \<Rightarrow> js_error" where
  "Error m = \<lparr>name = ''Error'', message = m, code = None, response = None, request = False\<rparr>"

definition TypeError :: "string \<Rightarrow> js_error" where
  "TypeError m =
     \<lparr>name = ''TypeError'', message = m, code = None, response = None, request = False\<rparr>"

definition ValidationError :: "string list \<Rightarrow> js_error" where
  "ValidationError paths =
     \<lparr>name = ''ValidationError'', message = ''Task validation failed: '' @ concat paths,
      code = None, response = None, request = False\<rparr>"

definition MongoError :: "string \<Rightarrow> js_error" where
  "MongoError m =
     \<lparr>name = ''MongoError'', message = m, code = None, response = None, request = False\<rparr>"

definition CastError :: "string \<Rightarrow> js_error" where
  "CastError v =
     \<lparr>name = ''CastError'', message = ''Cast to ObjectId failed for value '' @ v,
      code = None, response = None, request = False\<rparr>"

subsection \<open>The Task model and the store\<close>

text \<open>
  An \<^verbatim>\<open>ObjectId\<close> is kept as its 24 hexadecimal digits in lower case. Mongoose casts
  the string of a path parameter to an id before it queries: 24 hexadecimal digits in
  either case are an id, and any other string is refused with a \<^verbatim>\<open>CastError\<close>
  (drivers before bson 6 also read a string of 12 bytes as an id; the model follows the
  current one).
\<close>

type_synonym oid = string

definition toLowerCase :: "char \<Rightarrow> char" where
  "toLowerCase c =
     (let n = (of_char c :: nat) in if 65 \<le> n \<and> n \<le> 90 then char_of (n + 32) else c)"

definition castObjectId :: "string \<Rightarrow> oid option" where
  "castObjectId v =
     (if length v = 24 \<and> list_all (\<lambda>c. digit_of c < 16) v then Some (map toLowerCase v)
      else None)"

text \<open>A persisted document of the collection (\<^verbatim>\<open>src/models/Task.js\<close>).\<close>

record task =
  task_oid :: oid
  activity :: string
  city :: string
  state :: "string option"
  country :: string
  taskDate :: int
  taskTime :: "string option"
  createdAt :: int

text \<open>
  A document as \<^verbatim>\<open>new Task({...})\<close> builds it, before validation: a path may be
  missing, and the date may be an invalid \<^verbatim>\<open>Date\<close> (time value \<^verbatim>\<open>NaN\<close>).
\<close>

record document =
  doc_oid :: oid
  doc_activity :: "string option"
  doc_city :: "string option"
  doc_state :: "string option"
  doc_country :: "string option"
  doc_taskDate :: number
  doc_taskTime :: "string option"
  doc_createdAt :: int

text \<open>
  The connection and the collection. \<open>readyState\<close> is \<^verbatim>\<open>mongoose.connection.readyState\<close>
  (1 is "connected"); \<open>query_fails\<close> tells whether a call of the driver is rejected
  (the store cannot be reached, or refuses the call); \<open>tasks\<close> is the collection in
  its natural order.
\<close>

record db =
  readyState :: nat
  query_fails :: bool
  tasks :: "task list"

text \<open>
  The validators of the schema: \<^verbatim>\<open>required: true\<close> on a String path refuses a
  missing value and the empty string; a Date path refuses an invalid date.
\<close>

definition validate :: "document \<Rightarrow> string list" where
  "validate d =
     (if truthy (doc_activity d) then [] else [''activity'']) @
     (if truthy (doc_city d) then [] else [''city'']) @
     (if truthy (doc_country d) then [] else [''country'']) @
     (case doc_taskDate d of Num t \<Rightarrow> [] | _ \<Rightarrow> [''taskDate''])"

text \<open>
  \<^verbatim>\<open>document.save()\<close>: validation first, then the insert, which the store refuses
  for an \<^verbatim>\<open>_id\<close> it already holds.
\<close>

definition save :: "document \<Rightarrow> db \<Rightarrow> js_error + db" where
  "save d s =
     (case (doc_activity d, doc_city d, doc_country d, doc_taskDate d) of
        (Some a, Some c, Some k, Num t) \<Rightarrow>
          if validate d \<noteq> [] then Inl (ValidationError (validate d))
          else if query_fails s then Inl (MongoError ''insert failed'')
          else if doc_oid d \<in> set (map task_oid (tasks s))
          then Inl (MongoError ''E11000 duplicate key'')
          else Inr (s\<lparr>tasks := tasks s @
                 [\<lparr>task_oid = doc_oid d, activity = a, city = c, state = doc_state d,
                   country = k, taskDate = t, taskTime = doc_taskTime d,
                   createdAt = doc_createdAt d\<rparr>]\<rparr>)
      | _ \<Rightarrow> Inl (ValidationError (validate d)))"

text \<open>\<^verbatim>\<open>Task.find().sort({ taskDate: 1 })\<close>.\<close>

definition find_sort_taskDate :: "db \<Rightarrow> js_error + task list" where
  "find_sort_taskDate s =
     (if query_fails s then Inl (MongoError ''find failed'')
      else Inr (sort_key taskDate (tasks s)))"

definition findById :: "string \<Rightarrow> db \<Rightarrow> js_error + task option" where
  "findById v s =
     (case castObjectId v of
        None \<Rightarrow> Inl (CastError v)
      | Some i \<Rightarrow>
          if query_fails s then Inl (MongoError ''findOne failed'')
          else Inr (find (\<lambda>t. task_oid t = i) (tasks s)))"

fun delete_one :: "oid \<Rightarrow> task list \<Rightarrow> task list" where
  "delete_one i [] = []"
| "delete_one i (t # ts) = (if task_oid t = i then ts else t # delete_one i ts)"

definition findByIdAndDelete :: "string \<Rightarrow> db \<Rightarrow> js_error + db" where
  "findByIdAndDelete v s =
     (case castObjectId v of
        None \<Rightarrow> Inl (CastError v)
      | Some i \<Rightarrow>
          if query_fails s then Inl (MongoError ''findOneAndDelete failed'')
          else Inr (s\<lparr>tasks := delete_one i (tasks s)\<rparr>))"

subsection \<open>What a handler reads besides the store, and what it answers\<close>

text \<open>The body of the provider's answer, with the fields the handler reads.\<close>

record condition =
  cond_description :: string
  cond_icon :: string

record payload =
  data_name :: string
  main_temp :: rat
  main_feels_like :: rat
  main_humidity :: rat
  weather :: "condition list"
  wind_speed :: rat
  clouds_all :: rat

text \<open>
  The process and the outside world: the environment variables, the clock, the id the
  driver gives the next document, the provider (\<^verbatim>\<open>axios.get\<close> of a URL either
  resolves with a body or rejects with an error), and the host's date formatting.
\<close>

record world =
  OPENWEATHER_API_KEY :: "string option"
  NODE_ENV :: "string option"
  Date_now :: int
  process_uptime :: rat
  process_memoryUsage :: "(string \<times> nat) list"
  ObjectId :: oid
  axios_get :: "string \<Rightarrow> js_error + payload"
  toLocaleDateString :: "int \<Rightarrow> string"

type_synonym body = "string \<Rightarrow> string option"

record task_view =
  task_activity :: string
  task_date :: string
  task_time :: string
  task_location :: string

record weather_view =
  location :: string
  temp :: int
  feels_like :: int
  humidity :: rat
  description :: string
  icon :: string
  wind :: rat
  clouds :: rat
  task :: task_view

record health =
  status :: string
  timestamp :: int
  uptime :: rat
  database :: string
  memory :: "(string \<times> nat) list"
  environment :: string

text \<open>
  A JSON body: \<open>Weather v\<close> is \<^verbatim>\<open>{ success: true, ...v }\<close>, \<open>Failure e\<close> is
  \<^verbatim>\<open>{ success: false, error: e }\<close>.
\<close>

datatype json_body = Weather weather_view | Failure string | Health health

fun success :: "json_body \<Rightarrow> bool option" where
  "success (Weather v) = Some True"
| "success (Failure e) = Some False"
| "success (Health h) = None"

text \<open>
  A reply: a rendered view with its locals (\<^verbatim>\<open>tasks\<close>: title, tasks, error;
  \<^verbatim>\<open>add-task\<close>: title, error), a redirect, or JSON with its HTTP status
  (\<^verbatim>\<open>res.json\<close> alone answers 200).
\<close>

datatype reply =
    Render_tasks string "task list" "string option"
  | Render_add_task string "string option"
  | Redirect string
  | Json nat json_body

definition res_json :: "json_body \<Rightarrow> reply" where
  "res_json b = Json 200 b"

subsection \<open>The route handlers\<close>

text \<open>\<^verbatim>\<open>GET /tasks\<close>.\<close>

definition tasks_try :: "db \<Rightarrow> js_error + task list" where
  "tasks_try s =
     (if readyState s \<noteq> 1 then Inl (Error ''Database not connected'')
      else find_sort_taskDate s)"

definition GET_tasks :: "db \<Rightarrow> reply" where
  "GET_tasks s =
     (case tasks_try s of
        Inr ts \<Rightarrow> Render_tasks ''All Tasks'' ts None
      | Inl error \<Rightarrow>
          Render_tasks ''All Tasks'' []
            (Some ''Database connection failed. Please try again later.''))"

text \<open>\<^verbatim>\<open>POST /add\<close>: the \<^verbatim>\<open>try\<close> block, then the handler with its \<^verbatim>\<open>catch\<close>.\<close>

definition taskDateObj :: "string \<Rightarrow> string option \<Rightarrow> number" where
  "taskDateObj date_string time_value =
     (let dateParts = split CHR ''-'' date_string;
          year = parseInt_value (element dateParts 0);
          month = minus_one (parseInt_value (element dateParts 1));
          day = parseInt_value (element dateParts 2)
      in case time_value of
           Some time_string \<Rightarrow>
             if time_string \<noteq> [] then
               (let timeParts = split CHR '':'' time_string;
                    hours = parseInt_value (element timeParts 0);
                    minutes = (if truthy (element timeParts 1)
                               then parseInt_value (element timeParts 1)
                               else parseInt ''0'')
                in new_Date (Date_UTC year month day hours minutes))
             else new_Date (Date_UTC year month day (Num 0) (Num 0))
         | None \<Rightarrow> new_Date (Date_UTC year month day (Num 0) (Num 0)))"

definition add_try :: "world \<Rightarrow> body \<Rightarrow> db \<Rightarrow> js_error + db" where
  "add_try w b s =
     (if readyState s \<noteq> 1 then Inl (Error ''Database not connected'')
      else case b ''taskDate'' of
        None \<Rightarrow> Inl (TypeError ''Cannot read properties of undefined'')
      | Some date_string \<Rightarrow>
          save \<lparr>doc_oid = ObjectId w,
                doc_activity = b ''activity'',
                doc_city = b ''city'',
                doc_state = b ''state'',
                doc_country = b ''country'',
                doc_taskDate = taskDateObj date_string (b ''taskTime''),
                doc_taskTime = (if truthy (b ''taskTime'') then b ''taskTime'' else None),
                doc_createdAt = Date_now w\<rparr> s)"

definition POST_add :: "world \<Rightarrow> body \<Rightarrow> db \<Rightarrow> reply \<times> db" where
  "POST_add w b s =
     (case add_try w b s of
        Inr s' \<Rightarrow> (Redirect ''/tasks'', s')
      | Inl error \<Rightarrow>
          (Render_add_task ''Add New Task''
             (Some ''Failed to add task. Database may be unavailable.''), s))"

text \<open>\<^verbatim>\<open>POST /delete/:id\<close>.\<close>

definition POST_delete :: "string \<Rightarrow> db \<Rightarrow> reply \<times> db" where
  "POST_delete i s =
     (if readyState s \<noteq> 1 then (Redirect ''/tasks?error=database'', s)
      else case findByIdAndDelete i s of
        Inr s' \<Rightarrow> (Redirect ''/tasks'', s')
      | Inl error \<Rightarrow> (Redirect ''/tasks'', s))"

text \<open>
  \<^verbatim>\<open>GET /weather/:taskId\<close>. The handler is given with the list of the URLs it
  requested from the provider. \<open>errorMessage\<close> is the \<^verbatim>\<open>catch\<close> block's choice of
  a message.
\<close>

definition errorMessage :: "js_error \<Rightarrow> string" where
  "errorMessage error =
     (if code error = Some ''ECONNABORTED'' \<or> name error = ''AbortError''
      then ''Weather request timed out. Please try again.''
      else case response error of
        Some code_of_status \<Rightarrow>
          if code_of_status = 404
          then ''Location not found. Please check the city and country.''
          else if code_of_status = 401 then ''Weather service authentication failed.''
          else if code_of_status = 429
          then ''Too many weather requests. Please wait a moment.''
          else ''Weather service error: '' @ Number_toString code_of_status
      | None \<Rightarrow>
          if request error
          then ''No response from weather service. Please check your connection.''
          else ''Could not fetch weather data for this location'')"

definition weather_url :: "string \<Rightarrow> string \<Rightarrow> string" where
  "weather_url loc apiKey =
     ''https://api.openweathermap.org/data/2.5/weather?q='' @ encodeURIComponent loc @
     ''&units=imperial&appid='' @ apiKey"

definition weather_of :: "world \<Rightarrow> task \<Rightarrow> payload \<Rightarrow> js_error + json_body" where
  "weather_of w t d =
     (case weather d of
        [] \<Rightarrow> Inl (TypeError ''Cannot read properties of undefined'')
      | c # cs \<Rightarrow>
          Inr (Weather
            \<lparr>location = data_name d,
             temp = Math_round (main_temp d),
             feels_like = Math_round (main_feels_like d),
             humidity = main_humidity d,
             description = cond_description c,
             icon = ''https://openweathermap.org/img/wn/'' @ cond_icon c @ ''@2x.png'',
             wind = wind_speed d,
             clouds = clouds_all d,
             task =
               \<lparr>task_activity = activity t,
                task_date = toLocaleDateString w (taskDate t),
                task_time = (case taskTime t of
                               Some tt \<Rightarrow> if tt \<noteq> [] then tt else ''All day''
                             | None \<Rightarrow> ''All day''),
                task_location =
                  city t @ (case state t of
                              Some st \<Rightarrow> if st \<noteq> [] then '', '' @ st else []
                            | None \<Rightarrow> []) @ '', '' @ country t\<rparr>\<rparr>))"

definition weather_try :: "world \<Rightarrow> string \<Rightarrow> db \<Rightarrow> (js_error + json_body) \<times> string list" where
  "weather_try w taskId s =
     (if readyState s \<noteq> 1 then (Inr (Failure ''Database not available''), [])
      else case findById taskId s of
        Inl error \<Rightarrow> (Inl error, [])
      | Inr None \<Rightarrow> (Inr (Failure ''Task not found''), [])
      | Inr (Some t) \<Rightarrow>
          (case OPENWEATHER_API_KEY w of
             None \<Rightarrow> (Inr (Failure ''Weather service configuration error''), [])
           | Some apiKey \<Rightarrow>
               if apiKey = []
               then (Inr (Failure ''Weather service configuration error''), [])
               else (let loc = city t @ '','' @ country t;
                         url = weather_url loc apiKey
                     in case axios_get w url of
                          Inl error \<Rightarrow> (Inl error, [url])
                        | Inr d \<Rightarrow> (weather_of w t d, [url]))))"

definition GET_weather :: "world \<Rightarrow> string \<Rightarrow> db \<Rightarrow> reply \<times> string list" where
  "GET_weather w taskId s =
     (case weather_try w taskId s of
        (Inr b, reqs) \<Rightarrow> (res_json b, reqs)
      | (Inl error, reqs) \<Rightarrow> (res_json (Failure (errorMessage error)), reqs))"

text \<open>\<^verbatim>\<open>GET /health\<close>.\<close>

definition GET_health :: "world \<Rightarrow> db \<Rightarrow> reply" where
  "GET_health w s =
     Json 200 (Health
       \<lparr>status = ''healthy'',
        timestamp = Date_now w,
        uptime = process_uptime w,
        database = (if readyState s = 1 then ''connected'' else ''disconnected''),
        memory = process_memoryUsage w,
        environment = (if truthy (NODE_ENV w) then (case NODE_ENV w of Some e \<Rightarrow> e | None \<Rightarrow> [])
                       else ''development'')\<rparr>)"

text \<open>
  The service as a state machine: an event is a request with the world it is served in,
  or a change of the connection that the driver makes on its own.
\<close>

datatype request =
    Get_tasks
  | Post_add body
  | Post_delete string
  | Get_weather string
  | Get_health

datatype event = Request world request | Connection nat bool

fun serve :: "world \<Rightarrow> request \<Rightarrow> db \<Rightarrow> reply \<times> db" where
  "serve w Get_tasks s = (GET_tasks s, s)"
| "serve w (Post_add b) s = POST_add w b s"
| "serve w (Post_delete i) s = POST_delete i s"
| "serve w (Get_weather i) s = (fst (GET_weather w i s), s)"
| "serve w Get_health s = (GET_health w s, s)"

fun step :: "event \<Rightarrow> db \<Rightarrow> db" where
  "step (Request w r) s = snd (serve w r s)"
| "step (Connection rs qf) s = s\<lparr>readyState := rs, query_fails := qf\<rparr>"

fun run :: "event list \<Rightarrow> db \<Rightarrow> db" where
  "run [] s = s"
| "run (e # es) s = run es (step e s)"

subsection \<open>The calendar, as the specification reads a date and a time\<close>

text \<open>
  The instant that a date \<open>YYYY-MM-DD\<close> and a time \<open>HH:MM\<close> denote in UTC, counted
  the plain way: the days of the whole years since 1970 (or back to the year, before
  1970), the days of the whole months of the year, the days of the month, then hours
  and minutes, in milliseconds. These definitions follow the calendar, not the code.
\<close>

definition leap_year :: "int \<Rightarrow> bool" where
  "leap_year y = (y mod 4 = 0 \<and> (y mod 100 \<noteq> 0 \<or> y mod 400 = 0))"

definition days_in_year :: "int \<Rightarrow> int" where
  "days_in_year y = (if leap_year y then 366 else 365)"

definition days_in_month :: "int \<Rightarrow> int \<Rightarrow> int" where
  "days_in_month y m =
     (if m = 2 then (if leap_year y then 29 else 28)
      else if m = 4 \<or> m = 6 \<or> m = 9 \<or> m = 11 then 30
      else 31)"

definition days_before_year :: "int \<Rightarrow> int" where
  "days_before_year y =
     (if 1970 \<le> y then sum_list (map days_in_year [1970..y - 1])
      else - sum_list (map days_in_year [y..1969]))"

definition days_before_month :: "int \<Rightarrow> int \<Rightarrow> int" where
  "days_before_month y m = sum_list (map (days_in_month y) [1..m - 1])"

definition utc_instant :: "int \<Rightarrow> int \<Rightarrow> int \<Rightarrow> int \<Rightarrow> int \<Rightarrow> int" where
  "utc_instant y m d h mi =
     (((days_before_year y + days_before_month y m + (d - 1)) * 24 + h) * 60 + mi) * 60000"

text \<open>
  A valid date string is four digits, two digits and two digits between hyphens that
  name a day of the calendar; a valid time string is two digits for the hour, and
  optionally a colon and two digits for the minute.
\<close>

definition is_digit :: "char \<Rightarrow> bool" where
  "is_digit c = (c \<in> set ''0123456789'')"

definition digit_value :: "char \<Rightarrow> int" where
  "digit_value c = int (of_char c) - 48"

fun date_of_string :: "string \<Rightarrow> (int \<times> int \<times> int) option" where
  "date_of_string [y1, y2, y3, y4, s1, m1, m2, s2, d1, d2] =
     (if list_all is_digit [y1, y2, y3, y4, m1, m2, d1, d2] \<and> s1 = CHR ''-'' \<and> s2 = CHR ''-''
      then (let y = 1000 * digit_value y1 + 100 * digit_value y2 + 10 * digit_value y3 +
                    digit_value y4;
                m = 10 * digit_value m1 + digit_value m2;
                d = 10 * digit_value d1 + digit_value d2
            in if 1 \<le> m \<and> m \<le> 12 \<and> 1 \<le> d \<and> d \<le> days_in_month y m
               then Some (y, m, d) else None)
      else None)"
| "date_of_string _ = None"

fun time_of_string :: "string \<Rightarrow> (int \<times> int) option" where
  "time_of_string [h1, h2, s1, m1, m2] =
     (if list_all is_digit [h1, h2, m1, m2] \<and> s1 = CHR '':''
      then (let h = 10 * digit_value h1 + digit_value h2;
                mi = 10 * digit_value m1 + digit_value m2
            in if h \<le> 23 \<and> mi \<le> 59 then Some (h, mi) else None)
      else None)"
| "time_of_string [h1, h2] =
     (if list_all is_digit [h1, h2]
      then (let h = 10 * digit_value h1 + digit_value h2
            in if h \<le> 23 then Some (h, 0) else None)
      else None)"
| "time_of_string _ = None"

text \<open>
  The instant expected for the date and the optional time of a form (an empty time field
  is no time): \<open>None\<close> when one of them is not valid.
\<close>

definition expected_taskDate :: "string \<Rightarrow> string option \<Rightarrow> int option" where
  "expected_taskDate ds tv =
     (case date_of_string ds of
        None \<Rightarrow> None
      | Some (y, m, d) \<Rightarrow>
          (case tv of
             None \<Rightarrow> Some (utc_instant y m d 0 0)
           | Some ts \<Rightarrow>
               if ts = [] then Some (utc_instant y m d 0 0)
               else (case time_of_string ts of
                       None \<Rightarrow> None
                     | Some (h, mi) \<Rightarrow> Some (utc_instant y m d h mi))))"

subsection \<open>Predicates on the store, and sample inputs\<close>

text \<open>
  What the data model promises of a persisted task: the required texts are not empty, and
  the date is a time value (within \<open>8.64e15\<close> ms of the epoch). In a well-formed
  store every task is so, and no two tasks share an id.
\<close>

definition task_ok :: "task \<Rightarrow> bool" where
  "task_ok t =
     (activity t \<noteq> [] \<and> city t \<noteq> [] \<and> country t \<noteq> [] \<and>
      \<bar>taskDate t\<bar> \<le> 8640000000000000)"

definition stored_ok :: "db \<Rightarrow> bool" where
  "stored_ok s = (list_all task_ok (tasks s) \<and> distinct (map task_oid (tasks s)))"

text \<open>A form body from its fields.\<close>

definition body_of :: "(string \<times> string) list \<Rightarrow> body" where
  "body_of kvs = map_of kvs"

text \<open>
  Three tasks, dated 2024-03-01, 2024-01-15 at 14:00 and 2024-02-10, a store that holds
  them in this order, an answer of the provider, and a world around them.
\<close>

definition picnic :: task where
  "picnic =
     \<lparr>task_oid = ''65a4f0c2e1b2a3c4d5e6f700'', activity = ''Picnic'', city = ''Austin'',
      state = Some [], country = ''US'', taskDate = 1709251200000, taskTime = None,
      createdAt = 1704067200000\<rparr>"

definition hike :: task where
  "hike =
     \<lparr>task_oid = ''65a4f0c2e1b2a3c4d5e6f701'', activity = ''Hike'', city = ''Denver'',
      state = Some ''CO'', country = ''US'', taskDate = 1705327200000,
      taskTime = Some ''14:00'', createdAt = 1704067200000\<rparr>"

definition concert :: task where
  "concert =
     \<lparr>task_oid = ''65a4f0c2e1b2a3c4d5e6f702'', activity = ''Concert'', city = ''Paris'',
      state = None, country = ''FR'', taskDate = 1707523200000, taskTime = None,
      createdAt = 1704067200000\<rparr>"

definition three_tasks :: db where
  "three_tasks = \<lparr>readyState = 1, query_fails = False, tasks = [picnic, hike, concert]\<rparr>"

definition clear_sky :: payload where
  "clear_sky =
     \<lparr>data_name = ''Denver'', main_temp = 725 / 10, main_feels_like = 7049 / 100,
      main_humidity = 40,
      weather = [\<lparr>cond_description = ''clear sky'', cond_icon = ''01d''\<rparr>],
      wind_speed = 56 / 10, clouds_all = 0\<rparr>"

definition sample_world :: "(string \<Rightarrow> js_error + payload) \<Rightarrow> string option \<Rightarrow> world" where
  "sample_world provider key =
     \<lparr>OPENWEATHER_API_KEY = key, NODE_ENV = None, Date_now = 1704067200000,
      process_uptime = 12, process_memoryUsage = [],
      ObjectId = ''65a4f0c2e1b2a3c4d5e6f703'',
      axios_get = provider, toLocaleDateString = (\<lambda>t. ''Mon, Jan 15, 2024'')\<rparr>"

text \<open>
  An error that is a timeout or an abort, by any of the names and codes that Node and
  axios give one; and a world whose provider fails with the same errors but a different
  text in each of them.
\<close>

definition timeout_or_abort :: "js_error \<Rightarrow> bool" where
  "timeout_or_abort err =
     (code err \<in> set [Some ''ECONNABORTED'', Some ''ETIMEDOUT'', Some ''ERR_CANCELED''] \<or>
      name err \<in> set [''AbortError'', ''CanceledError''])"

definition with_message :: "string \<Rightarrow> world \<Rightarrow> world" where
  "with_message m w =
     w\<lparr>axios_get := (\<lambda>u. case axios_get w u of
                           Inl err \<Rightarrow> Inl (err\<lparr>message := m\<rparr>)
                         | Inr d \<Rightarrow> Inr d)\<rparr>"

text \<open>
  The error that axios raises when the handler's \<^verbatim>\<open>AbortController\<close> aborts the
  request after ten seconds.
\<close>

definition CanceledError :: js_error where
  "CanceledError =
     \<lparr>name = ''CanceledError'', message = ''canceled'', code = Some ''ERR_CANCELED'',
      response = None, request = True\<rparr>"

text \<open>An answer of the provider with status 503, as axios reports it.\<close>

definition unavailable :: js_error where
  "unavailable =
     \<lparr>name = ''AxiosError'', message = ''Request failed with status code 503'',
      code = Some ''ERR_BAD_RESPONSE'', response = Some 503, request = True\<rparr>"

text \<open>
  A connected, empty store, and a run of four requests against it: a well-formed task, a
  task with an empty activity, a task whose date is no date, and a listing.
\<close>

definition empty_store :: db where
  "empty_store = \<lparr>readyState = 1, query_fails = False, tasks = []\<rparr>"

definition four_requests :: "event list" where
  "four_requests =
     [Request (sample_world (\<lambda>u. Inr clear_sky) None)
        (Post_add (body_of [(''activity'', ''Hike''), (''city'', ''Denver''),
                            (''country'', ''US''), (''taskDate'', ''2024-01-15''),
                            (''taskTime'', ''14:00'')])),
      Request (sample_world (\<lambda>u. Inr clear_sky) None)
        (Post_add (body_of [(''activity'', []), (''city'', ''Denver''),
                            (''country'', ''US''), (''taskDate'', ''2024-01-16'')])),
      Request (sample_world (\<lambda>u. Inr clear_sky) None)
        (Post_add (body_of [(''activity'', ''Swim''), (''city'', ''Denver''),
                            (''country'', ''US''), (''taskDate'', ''soon'')])),
      Request (sample_world (\<lambda>u. Inr clear_sky) None) Get_tasks]"

section \<open>Properties\<close>

subsection \<open>The health probe\<close>

text \<open>
  C10. The health endpoint answers every request with HTTP status 200 and the status
  field \<open>healthy\<close>, whatever the state of the connection; only the database field
  tells whether the store is connected.
\<close>

theorem GET_health_healthy:
  "\<exists>h. GET_health w s = Json 200 (Health h) \<and> status h = ''healthy'' \<and>
       database h = (if readyState s = 1 then ''connected'' else ''disconnected'')"
  by (simp add: GET_health_def)

theorem GET_health_healthy_witness:
  "\<exists>h. GET_health (sample_world (\<lambda>u. Inr clear_sky) None)
          \<lparr>readyState = 0, query_fails = True, tasks = []\<rparr> = Json 200 (Health h) \<and>
       status h = ''healthy'' \<and> database h = ''disconnected''"
  using GET_health_healthy [of "sample_world (\<lambda>u. Inr clear_sky) None"
      "\<lparr>readyState = 0, query_fails = True, tasks = []\<rparr>"]
  by simp

subsection \<open>Listing\<close>

text \<open>
  C7. When the store is not connected, the list is empty and comes with an error
  message; the handler answers with the page, it does not raise.
\<close>

theorem GET_tasks_disconnected:
  "readyState s \<noteq> 1 \<Longrightarrow>
     GET_tasks s = Render_tasks ''All Tasks'' []
       (Some ''Database connection failed. Please try again later.'')"
  by (simp add: GET_tasks_def tasks_try_def)

theorem GET_tasks_disconnected_witness:
  "readyState (three_tasks\<lparr>readyState := 0\<rparr>) \<noteq> 1 \<and>
   GET_tasks (three_tasks\<lparr>readyState := 0\<rparr>) = Render_tasks ''All Tasks'' []
     (Some ''Database connection failed. Please try again later.'')"
  using GET_tasks_disconnected [of "three_tasks\<lparr>readyState := 0\<rparr>"]
  by (simp add: three_tasks_def)

lemma sort_key_Nil_iff: "(sort_key f xs = []) = (xs = [])"
  using length_sort [of f xs] by (metis length_0_conv)

text \<open>
  C5. On a connected store that answers, the list holds exactly the stored tasks, in
  ascending order of \<open>taskDate\<close>, with no error; an empty store gives the empty list.
\<close>

theorem GET_tasks_sorted:
  assumes "readyState s = 1" and "\<not> query_fails s"
  shows "\<exists>ts. GET_tasks s = Render_tasks ''All Tasks'' ts None \<and>
           sorted (map taskDate ts) \<and> mset ts = mset (tasks s) \<and>
           (ts = []) = (tasks s = [])"
  using assms
  by (simp add: GET_tasks_def tasks_try_def find_sort_taskDate_def sort_key_Nil_iff)

theorem GET_tasks_sorted_witness:
  "readyState three_tasks = 1 \<and> \<not> query_fails three_tasks \<and>
   GET_tasks three_tasks = Render_tasks ''All Tasks'' [hike, concert, picnic] None"
  using GET_tasks_sorted [of three_tasks]
  by (simp add: three_tasks_def GET_tasks_def tasks_try_def find_sort_taskDate_def
      picnic_def hike_def concert_def)

subsection \<open>Deleting\<close>

lemma delete_one_absent: "i \<notin> set (map task_oid ts) \<Longrightarrow> delete_one i ts = ts"
  by (induction ts) auto

lemma delete_one_removes:
  "distinct (map task_oid ts) \<Longrightarrow> i \<notin> set (map task_oid (delete_one i ts))"
  by (induction ts) auto

lemma set_delete_one: "set (delete_one i ts) \<subseteq> set ts"
  by (induction ts) auto

lemma distinct_delete_one:
  "distinct (map task_oid ts) \<Longrightarrow> distinct (map task_oid (delete_one i ts))"
proof (induction ts)
  case Nil
  then show ?case by simp
next
  case (Cons t ts)
  have "task_oid t \<notin> task_oid ` set (delete_one i ts)" if "task_oid t \<notin> task_oid ` set ts"
    using that set_delete_one [of i ts] by blast
  with Cons show ?case by simp
qed

text \<open>
  C8. On a connected store (whose ids are distinct), deleting by id answers with the
  redirect to the list whether or not a task has that id: an id that no task has, or a
  string that is no id, leaves the store as it is, the task of a stored id is gone
  afterwards, and a second call with the same id answers the same and changes nothing
  more.
\<close>

theorem POST_delete_idempotent:
  assumes "readyState s = 1" and "distinct (map task_oid (tasks s))"
  shows "fst (POST_delete v s) = Redirect ''/tasks'' \<and>
         ((\<forall>i. castObjectId v = Some i \<longrightarrow> i \<notin> set (map task_oid (tasks s))) \<longrightarrow>
            snd (POST_delete v s) = s) \<and>
         (\<not> query_fails s \<longrightarrow>
            (\<forall>i. castObjectId v = Some i \<longrightarrow>
               i \<notin> set (map task_oid (tasks (snd (POST_delete v s)))))) \<and>
         POST_delete v (snd (POST_delete v s)) = (Redirect ''/tasks'', snd (POST_delete v s))"
proof (cases "castObjectId v")
  case None
  then show ?thesis
    using assms(1) by (simp add: POST_delete_def findByIdAndDelete_def)
next
  case (Some i)
  then show ?thesis
    using assms delete_one_removes [of "tasks s" i]
    by (auto simp add: POST_delete_def findByIdAndDelete_def delete_one_absent)
qed

theorem POST_delete_idempotent_witness:
  "readyState three_tasks = 1 \<and> distinct (map task_oid (tasks three_tasks)) \<and>
   POST_delete ''000000000000000000000000'' three_tasks = (Redirect ''/tasks'', three_tasks) \<and>
   POST_delete ''65A4F0C2E1B2A3C4D5E6F701'' three_tasks =
     (Redirect ''/tasks'', three_tasks\<lparr>tasks := [picnic, concert]\<rparr>) \<and>
   POST_delete ''65A4F0C2E1B2A3C4D5E6F701''
     (snd (POST_delete ''65A4F0C2E1B2A3C4D5E6F701'' three_tasks)) =
     (Redirect ''/tasks'', three_tasks\<lparr>tasks := [picnic, concert]\<rparr>)"
proof -
  have h: "readyState three_tasks = 1" "distinct (map task_oid (tasks three_tasks))"
    by (simp_all add: three_tasks_def picnic_def hike_def concert_def)
  have a: "POST_delete ''000000000000000000000000'' three_tasks =
      (Redirect ''/tasks'', three_tasks)"
    by code_simp
  have b: "POST_delete ''65A4F0C2E1B2A3C4D5E6F701'' three_tasks =
      (Redirect ''/tasks'', three_tasks\<lparr>tasks := [picnic, concert]\<rparr>)"
    by code_simp
  show ?thesis
    using h a b POST_delete_idempotent [OF h, of "''65A4F0C2E1B2A3C4D5E6F701''"]
    by simp
qed

subsection \<open>The weather lookup\<close>

lemma find_oid_None: "(find (\<lambda>t. task_oid t = i) ts = None) = (i \<notin> set (map task_oid ts))"
  by (induction ts) auto

lemma weather_try_not_found:
  assumes "readyState s = 1" and "\<not> query_fails s" and "castObjectId v = Some i"
    and "i \<notin> set (map task_oid (tasks s))"
  shows "weather_try w v s = (Inr (Failure ''Task not found''), [])"
proof -
  have "find (\<lambda>t. task_oid t = i) (tasks s) = None"
    using assms(4) by (simp add: find_oid_None)
  then show ?thesis
    using assms(1-3) by (simp add: weather_try_def findById_def)
qed

lemma weather_try_no_key:
  assumes "readyState s = 1" and "\<not> query_fails s" and "castObjectId v = Some i"
    and "i \<in> set (map task_oid (tasks s))" and "\<not> truthy (OPENWEATHER_API_KEY w)"
  shows "weather_try w v s = (Inr (Failure ''Weather service configuration error''), [])"
proof -
  have "find (\<lambda>t. task_oid t = i) (tasks s) \<noteq> None"
    using assms(4) by (simp add: find_oid_None)
  then obtain t where "find (\<lambda>t. task_oid t = i) (tasks s) = Some t"
    by blast
  then show ?thesis
    using assms(1-3,5)
    by (cases "OPENWEATHER_API_KEY w") (simp_all add: weather_try_def findById_def)
qed

lemma weather_try_malformed:
  assumes "readyState s = 1" and "castObjectId v = None"
  shows "weather_try w v s = (Inl (CastError v), [])"
  using assms by (simp add: weather_try_def findById_def)

lemma weather_try_requests:
  assumes "snd (weather_try w v s) \<noteq> []"
  shows "(\<exists>t. findById v s = Inr (Some t)) \<and> truthy (OPENWEATHER_API_KEY w)"
proof (cases "findById v s")
  case (Inl err)
  then show ?thesis
    using assms by (simp add: weather_try_def split: if_splits)
next
  case (Inr found)
  show ?thesis
  proof (cases found)
    case None
    then show ?thesis
      using assms Inr by (simp add: weather_try_def split: if_splits)
  next
    case (Some t)
    then have "truthy (OPENWEATHER_API_KEY w)"
      using assms Inr
      by (cases "OPENWEATHER_API_KEY w") (auto simp add: weather_try_def split: if_splits)
    then show ?thesis
      using Inr Some by simp
  qed
qed

lemma snd_GET_weather: "snd (GET_weather w v s) = snd (weather_try w v s)"
  by (simp add: GET_weather_def split: prod.splits sum.splits)

lemma errorMessage_CastError:
  "errorMessage (CastError v) = ''Could not fetch weather data for this location''"
  by (simp add: errorMessage_def CastError_def)

text \<open>
  C4, as amended. On a connected store that answers: a lookup for a well-formed id (24
  hexadecimal digits) that no stored task has answers \<open>Task not found\<close>, and a lookup
  that finds the task but no API key answers \<open>Weather service configuration error\<close>.
  On a connected store, a lookup for a string that is no id answers the general failure
  message. In all three cases no request goes to the provider; and whenever the id does
  not resolve to a stored task, or no API key is configured, the list of requested URLs
  is empty.
\<close>

theorem GET_weather_short_circuit:
  "(readyState s = 1 \<and> \<not> query_fails s \<and> castObjectId v = Some i \<and>
      i \<notin> set (map task_oid (tasks s)) \<longrightarrow>
      GET_weather w v s = (Json 200 (Failure ''Task not found''), [])) \<and>
   (readyState s = 1 \<and> \<not> query_fails s \<and> castObjectId v = Some i \<and>
      i \<in> set (map task_oid (tasks s)) \<and> \<not> truthy (OPENWEATHER_API_KEY w) \<longrightarrow>
      GET_weather w v s = (Json 200 (Failure ''Weather service configuration error''), [])) \<and>
   (readyState s = 1 \<and> castObjectId v = None \<longrightarrow>
      GET_weather w v s =
        (Json 200 (Failure ''Could not fetch weather data for this location''), [])) \<and>
   ((\<forall>t. findById v s \<noteq> Inr (Some t)) \<or> \<not> truthy (OPENWEATHER_API_KEY w) \<longrightarrow>
      snd (GET_weather w v s) = [])"
proof (intro conjI impI)
  assume "readyState s = 1 \<and> \<not> query_fails s \<and> castObjectId v = Some i \<and>
      i \<notin> set (map task_oid (tasks s))"
  then show "GET_weather w v s = (Json 200 (Failure ''Task not found''), [])"
    by (simp add: GET_weather_def weather_try_not_found res_json_def)
next
  assume "readyState s = 1 \<and> \<not> query_fails s \<and> castObjectId v = Some i \<and>
      i \<in> set (map task_oid (tasks s)) \<and> \<not> truthy (OPENWEATHER_API_KEY w)"
  then show "GET_weather w v s =
      (Json 200 (Failure ''Weather service configuration error''), [])"
    by (simp add: GET_weather_def weather_try_no_key res_json_def)
next
  assume "readyState s = 1 \<and> castObjectId v = None"
  then show "GET_weather w v s =
      (Json 200 (Failure ''Could not fetch weather data for this location''), [])"
    by (simp add: GET_weather_def weather_try_malformed res_json_def errorMessage_CastError)
next
  assume "(\<forall>t. findById v s \<noteq> Inr (Some t)) \<or> \<not> truthy (OPENWEATHER_API_KEY w)"
  then show "snd (GET_weather w v s) = []"
    using weather_try_requests [of w v s] by (auto simp add: snd_GET_weather)
qed

theorem GET_weather_short_circuit_witness:
  "GET_weather (sample_world (\<lambda>u. Inr clear_sky) None) ''000000000000000000000000''
      three_tasks = (Json 200 (Failure ''Task not found''), []) \<and>
   GET_weather (sample_world (\<lambda>u. Inr clear_sky) None) ''65A4F0C2E1B2A3C4D5E6F701''
      three_tasks = (Json 200 (Failure ''Weather service configuration error''), []) \<and>
   GET_weather (sample_world (\<lambda>u. Inr clear_sky) None) ''not-an-id'' three_tasks =
     (Json 200 (Failure ''Could not fetch weather data for this location''), [])"
proof -
  have c0: "castObjectId ''000000000000000000000000'' = Some ''000000000000000000000000''"
    and c1: "castObjectId ''65A4F0C2E1B2A3C4D5E6F701'' = Some ''65a4f0c2e1b2a3c4d5e6f701''"
    and c2: "castObjectId ''not-an-id'' = None"
    by code_simp+
  show ?thesis
    using c0 c1 c2
      GET_weather_short_circuit [where s = three_tasks and v = "''000000000000000000000000''"
        and i = "''000000000000000000000000''" and w = "sample_world (\<lambda>u. Inr clear_sky) None"]
      GET_weather_short_circuit [where s = three_tasks and v = "''65A4F0C2E1B2A3C4D5E6F701''"
        and i = "''65a4f0c2e1b2a3c4d5e6f701''" and w = "sample_world (\<lambda>u. Inr clear_sky) None"]
      GET_weather_short_circuit [where s = three_tasks and v = "''not-an-id''"
        and i = "[]" and w = "sample_world (\<lambda>u. Inr clear_sky) None"]
    by (simp add: three_tasks_def picnic_def hike_def concert_def sample_world_def)
qed

text \<open>
  C4 as stated fails: the path \<open>abc\<close> is the id of no stored task, but the lookup does
  not answer \<open>Task not found\<close>: the cast of \<open>abc\<close> to an id fails inside the
  \<^verbatim>\<open>try\<close> block, and the \<^verbatim>\<open>catch\<close> block answers with its general message.
\<close>

theorem GET_weather_short_circuit_counterexample:
  "''abc'' \<notin> set (map task_oid (tasks three_tasks)) \<and>
   findById ''abc'' three_tasks = Inl (CastError ''abc'') \<and>
   GET_weather (sample_world (\<lambda>u. Inr clear_sky) (Some ''key'')) ''abc'' three_tasks =
     (Json 200 (Failure ''Could not fetch weather data for this location''), []) \<and>
   ''Could not fetch weather data for this location'' \<noteq> ''Task not found''"
  by code_simp







lemma errorMessage_message: "errorMessage (err\<lparr>message := m\<rparr>) = errorMessage err"
  by (simp add: errorMessage_def)

lemma errorMessage_fixed:
  "errorMessage err \<in> set
     [''Weather request timed out. Please try again.'',
      ''Location not found. Please check the city and country.'',
      ''Weather service authentication failed.'',
      ''Too many weather requests. Please wait a moment.'',
      ''No response from weather service. Please check your connection.'',
      ''Could not fetch weather data for this location''] \<or>
   (\<exists>n. errorMessage err = ''Weather service error: '' @ Number_toString n)"
  by (cases "response err") (auto simp add: errorMessage_def)

lemma errorMessage_kinds:
  assumes "\<not> timeout_or_abort err"
  shows
  "(response err = Some 404 \<and>
      errorMessage err = ''Location not found. Please check the city and country.'') \<or>
   (response err = Some 401 \<and>
      errorMessage err = ''Weather service authentication failed.'') \<or>
   (response err = Some 429 \<and>
      errorMessage err = ''Too many weather requests. Please wait a moment.'') \<or>
   (\<exists>n. response err = Some n \<and> n \<notin> {404, 401, 429} \<and>
      errorMessage err = ''Weather service error: '' @ Number_toString n) \<or>
   (response err = None \<and> request err \<and>
      errorMessage err = ''No response from weather service. Please check your connection.'') \<or>
   (response err = None \<and> \<not> request err \<and>
      errorMessage err = ''Could not fetch weather data for this location'')"
  using assms
  by (cases "response err") (auto simp add: errorMessage_def timeout_or_abort_def)

lemma weather_try_Failure:
  assumes "weather_try w v s = (Inr (Failure e), reqs)"
  shows "e \<in> set [''Database not available'', ''Task not found'',
           ''Weather service configuration error'']"
  using assms
  by (auto simp add: weather_try_def findById_def Let_def weather_of_def
      split: if_splits option.splits sum.splits list.splits)

lemma GET_weather_with_message: "GET_weather (with_message m w) v s = GET_weather w v s"
  by (auto simp add: GET_weather_def weather_try_def findById_def Let_def weather_of_def
      with_message_def errorMessage_message res_json_def
      split: if_splits option.splits sum.splits list.splits)

text \<open>
  C3, as amended. Every failing lookup answers HTTP 200 with \<open>success: false\<close> and
  one of the handler's fixed messages, and the text of the error that the provider call
  raised has no influence on the answer. When the lookup fails with an exception that is
  no timeout and no abort, the message is the one the failure's kind selects: status 404,
  401, 429, another status (with its number), no response to a request that was sent,
  and otherwise (neither a response nor a request) the general message
  \<open>Could not fetch weather data for this location\<close>. Which message a timeout or an
  abort gets is left open here.
\<close>

theorem GET_weather_failure:
  assumes "GET_weather w v s = (Json sc (Failure e), reqs)"
  shows "sc = 200 \<and>
    (e \<in> set
       [''Database not available'', ''Task not found'',
        ''Weather service configuration error'',
        ''Weather request timed out. Please try again.'',
        ''Location not found. Please check the city and country.'',
        ''Weather service authentication failed.'',
        ''Too many weather requests. Please wait a moment.'',
        ''No response from weather service. Please check your connection.'',
        ''Could not fetch weather data for this location''] \<or>
     (\<exists>n. e = ''Weather service error: '' @ Number_toString n)) \<and>
    (\<forall>m. GET_weather (with_message m w) v s = (Json sc (Failure e), reqs)) \<and>
    (\<forall>err. weather_try w v s = (Inl err, reqs) \<and> \<not> timeout_or_abort err \<longrightarrow>
       (response err = Some 404 \<and>
          e = ''Location not found. Please check the city and country.'') \<or>
       (response err = Some 401 \<and> e = ''Weather service authentication failed.'') \<or>
       (response err = Some 429 \<and>
          e = ''Too many weather requests. Please wait a moment.'') \<or>
       (\<exists>n. response err = Some n \<and> n \<notin> {404, 401, 429} \<and>
          e = ''Weather service error: '' @ Number_toString n) \<or>
       (response err = None \<and> request err \<and>
          e = ''No response from weather service. Please check your connection.'') \<or>
       (response err = None \<and> \<not> request err \<and>
          e = ''Could not fetch weather data for this location''))"
proof -
  have indep: "\<forall>m. GET_weather (with_message m w) v s = (Json sc (Failure e), reqs)"
    using assms by (simp add: GET_weather_with_message)
  obtain r rs where tr: "weather_try w v s = (r, rs)"
    by (cases "weather_try w v s")
  show ?thesis
  proof (cases r)
    case (Inl err)
    with tr assms have e: "e = errorMessage err" and sc: "sc = 200" and rs: "rs = reqs"
      by (simp_all add: GET_weather_def res_json_def)
    have fixed: "e \<in> set
       [''Database not available'', ''Task not found'',
        ''Weather service configuration error'',
        ''Weather request timed out. Please try again.'',
        ''Location not found. Please check the city and country.'',
        ''Weather service authentication failed.'',
        ''Too many weather requests. Please wait a moment.'',
        ''No response from weather service. Please check your connection.'',
        ''Could not fetch weather data for this location''] \<or>
     (\<exists>n. e = ''Weather service error: '' @ Number_toString n)"
      using errorMessage_fixed [of err] unfolding e by auto
    have kinds: "(response err' = Some 404 \<and>
          e = ''Location not found. Please check the city and country.'') \<or>
       (response err' = Some 401 \<and> e = ''Weather service authentication failed.'') \<or>
       (response err' = Some 429 \<and>
          e = ''Too many weather requests. Please wait a moment.'') \<or>
       (\<exists>n. response err' = Some n \<and> n \<notin> {404, 401, 429} \<and>
          e = ''Weather service error: '' @ Number_toString n) \<or>
       (response err' = None \<and> request err' \<and>
          e = ''No response from weather service. Please check your connection.'') \<or>
       (response err' = None \<and> \<not> request err' \<and>
          e = ''Could not fetch weather data for this location'')"
      if "weather_try w v s = (Inl err', reqs)" and "\<not> timeout_or_abort err'" for err'
    proof -
      from that(1) tr Inl have "err' = err" by simp
      then show ?thesis
        using errorMessage_kinds [OF that(2)] unfolding e by simp
    qed
    show ?thesis
    proof (intro conjI allI impI)
      show "sc = 200" by (rule sc)
    next
      show "e \<in> set
       [''Database not available'', ''Task not found'',
        ''Weather service configuration error'',
        ''Weather request timed out. Please try again.'',
        ''Location not found. Please check the city and country.'',
        ''Weather service authentication failed.'',
        ''Too many weather requests. Please wait a moment.'',
        ''No response from weather service. Please check your connection.'',
        ''Could not fetch weather data for this location''] \<or>
       (\<exists>n. e = ''Weather service error: '' @ Number_toString n)"
        by (rule fixed)
    next
      fix m
      show "GET_weather (with_message m w) v s = (Json sc (Failure e), reqs)"
        using indep by (rule spec)
    next
      fix err'
      assume "weather_try w v s = (Inl err', reqs) \<and> \<not> timeout_or_abort err'"
      then have "weather_try w v s = (Inl err', reqs)" and "\<not> timeout_or_abort err'"
        by simp_all
      then show "(response err' = Some 404 \<and>
          e = ''Location not found. Please check the city and country.'') \<or>
       (response err' = Some 401 \<and> e = ''Weather service authentication failed.'') \<or>
       (response err' = Some 429 \<and>
          e = ''Too many weather requests. Please wait a moment.'') \<or>
       (\<exists>n. response err' = Some n \<and> n \<notin> {404, 401, 429} \<and>
          e = ''Weather service error: '' @ Number_toString n) \<or>
       (response err' = None \<and> request err' \<and>
          e = ''No response from weather service. Please check your connection.'') \<or>
       (response err' = None \<and> \<not> request err' \<and>
          e = ''Could not fetch weather data for this location'')"
        by (rule kinds)
    qed
  next
    case (Inr b)
    with tr assms have b: "b = Failure e" and sc: "sc = 200" and rs: "rs = reqs"
      by (simp_all add: GET_weather_def res_json_def)
    have "e \<in> set [''Database not available'', ''Task not found'',
                           ''Weather service configuration error'']"
      using weather_try_Failure [of w v s e reqs] tr Inr b rs by simp
    then have fixed: "e \<in> set
       [''Database not available'', ''Task not found'',
        ''Weather service configuration error'',
        ''Weather request timed out. Please try again.'',
        ''Location not found. Please check the city and country.'',
        ''Weather service authentication failed.'',
        ''Too many weather requests. Please wait a moment.'',
        ''No response from weather service. Please check your connection.'',
        ''Could not fetch weather data for this location'']"
      by auto
    have no_exn: "weather_try w v s \<noteq> (Inl err', reqs)" for err'
      using tr Inr by simp
    show ?thesis
    proof (intro conjI allI impI)
      show "sc = 200" by (rule sc)
    next
      show "e \<in> set
       [''Database not available'', ''Task not found'',
        ''Weather service configuration error'',
        ''Weather request timed out. Please try again.'',
        ''Location not found. Please check the city and country.'',
        ''Weather service authentication failed.'',
        ''Too many weather requests. Please wait a moment.'',
        ''No response from weather service. Please check your connection.'',
        ''Could not fetch weather data for this location''] \<or>
       (\<exists>n. e = ''Weather service error: '' @ Number_toString n)"
        using fixed by (rule disjI1)
    next
      fix m
      show "GET_weather (with_message m w) v s = (Json sc (Failure e), reqs)"
        using indep by (rule spec)
    next
      fix err'
      assume "weather_try w v s = (Inl err', reqs) \<and> \<not> timeout_or_abort err'"
      then have False
        using no_exn [of err'] by simp
      then show "(response err' = Some 404 \<and>
          e = ''Location not found. Please check the city and country.'') \<or>
       (response err' = Some 401 \<and> e = ''Weather service authentication failed.'') \<or>
       (response err' = Some 429 \<and>
          e = ''Too many weather requests. Please wait a moment.'') \<or>
       (\<exists>n. response err' = Some n \<and> n \<notin> {404, 401, 429} \<and>
          e = ''Weather service error: '' @ Number_toString n) \<or>
       (response err' = None \<and> request err' \<and>
          e = ''No response from weather service. Please check your connection.'') \<or>
       (response err' = None \<and> \<not> request err' \<and>
          e = ''Could not fetch weather data for this location'')"
        by (rule FalseE)
    qed
  qed
qed

theorem GET_weather_failure_witness:
  "GET_weather (sample_world (\<lambda>u. Inl unavailable) (Some ''key'')) (task_oid hike) three_tasks =
     (Json 200 (Failure ''Weather service error: 503''),
      [''https://api.openweathermap.org/data/2.5/weather?q=Denver%2CUS&units=imperial&appid=key'']) \<and>
   GET_weather (with_message ''ECONNREFUSED 10.0.0.1''
       (sample_world (\<lambda>u. Inl unavailable) (Some ''key''))) (task_oid hike) three_tasks =
     (Json 200 (Failure ''Weather service error: 503''),
      [''https://api.openweathermap.org/data/2.5/weather?q=Denver%2CUS&units=imperial&appid=key''])"
proof -
  have h: "GET_weather (sample_world (\<lambda>u. Inl unavailable) (Some ''key'')) (task_oid hike)
      three_tasks =
     (Json 200 (Failure ''Weather service error: 503''),
      [''https://api.openweathermap.org/data/2.5/weather?q=Denver%2CUS&units=imperial&appid=key''])"
    by code_simp
  show ?thesis
    using GET_weather_failure [OF h] h by simp
qed

text \<open>
  C3 as stated fails: a body of the provider with no \<open>weather\<close> entry makes the
  handler raise a \<open>TypeError\<close>, which is no timeout and has no response and no
  request; the answer is the general message, which is none of the six reasons of the
  claim.
\<close>

theorem GET_weather_failure_counterexample:
  "fst (GET_weather (sample_world (\<lambda>u. Inr (clear_sky\<lparr>weather := []\<rparr>)) (Some ''key''))
      (task_oid hike) three_tasks) =
     Json 200 (Failure ''Could not fetch weather data for this location'') \<and>
   ''Could not fetch weather data for this location'' \<notin> set
     [''Weather request timed out. Please try again.'',
      ''Location not found. Please check the city and country.'',
      ''Weather service authentication failed.'',
      ''Too many weather requests. Please wait a moment.'',
      ''No response from weather service. Please check your connection.''] \<and>
   take 23 ''Could not fetch weather data for this location'' \<noteq> ''Weather service error: ''"
  by code_simp

text \<open>
  When the handler's own timer aborts the request, the error that axios raises has
  neither the code \<open>ECONNABORTED\<close> nor the name \<open>AbortError\<close> that the
  \<^verbatim>\<open>catch\<close> block takes for a timeout: the answer is the message for no response,
  not the one for a timeout.
\<close>

lemma GET_weather_canceled:
  "fst (GET_weather (sample_world (\<lambda>u. Inl CanceledError) (Some ''key''))
      (task_oid hike) three_tasks) =
     Json 200 (Failure ''No response from weather service. Please check your connection.'')"
  by code_simp

subsection \<open>Creating, and the invariant of the store\<close>


lemma TimeClip_range: "TimeClip t = Num v \<Longrightarrow> \<bar>v\<bar> \<le> 8640000000000000"
  by (cases t) (auto split: if_splits)

lemma Date_UTC_range:
  assumes "Date_UTC y m dt h mi = Num v"
  shows "\<bar>v\<bar> \<le> 8640000000000000"
  using assms by (simp add: Date_UTC_def TimeClip_range)





lemma taskDateObj_range: "taskDateObj ds tv = Num v \<Longrightarrow> \<bar>v\<bar> \<le> 8640000000000000"
  by (auto simp add: taskDateObj_def Let_def new_Date_def split: option.splits if_splits
      dest: TimeClip_range)



lemma save_Inr:
  assumes "save d s = Inr s'"
  shows "\<exists>a c k t. doc_activity d = Some a \<and> a \<noteq> [] \<and> doc_city d = Some c \<and> c \<noteq> [] \<and>
     doc_country d = Some k \<and> k \<noteq> [] \<and> doc_taskDate d = Num t \<and>
     doc_oid d \<notin> set (map task_oid (tasks s)) \<and> \<not> query_fails s \<and>
     s' = s\<lparr>tasks := tasks s @
            [\<lparr>task_oid = doc_oid d, activity = a, city = c, state = doc_state d,
              country = k, taskDate = t, taskTime = doc_taskTime d,
              createdAt = doc_createdAt d\<rparr>]\<rparr>"
  using assms
  by (auto simp add: save_def validate_def split: option.splits number.splits if_splits)

lemma add_try_Inr:
  assumes "add_try w b s = Inr s'"
  shows "\<exists>ds a c k t. readyState s = 1 \<and> \<not> query_fails s \<and> b ''taskDate'' = Some ds \<and>
     b ''activity'' = Some a \<and> a \<noteq> [] \<and> b ''city'' = Some c \<and> c \<noteq> [] \<and>
     b ''country'' = Some k \<and> k \<noteq> [] \<and> taskDateObj ds (b ''taskTime'') = Num t \<and>
     ObjectId w \<notin> set (map task_oid (tasks s)) \<and>
     s' = s\<lparr>tasks := tasks s @
            [\<lparr>task_oid = ObjectId w, activity = a, city = c, state = b ''state'',
              country = k, taskDate = t,
              taskTime = (if truthy (b ''taskTime'') then b ''taskTime'' else None),
              createdAt = Date_now w\<rparr>]\<rparr>"
proof -
  from assms obtain ds where rs: "readyState s = 1" and ds: "b ''taskDate'' = Some ds"
    by (auto simp add: add_try_def split: if_splits option.splits)
  with assms have "save \<lparr>doc_oid = ObjectId w,
                doc_activity = b ''activity'',
                doc_city = b ''city'',
                doc_state = b ''state'',
                doc_country = b ''country'',
                doc_taskDate = taskDateObj ds (b ''taskTime''),
                doc_taskTime = (if truthy (b ''taskTime'') then b ''taskTime'' else None),
                doc_createdAt = Date_now w\<rparr> s = Inr s'"
    by (simp add: add_try_def)
  from save_Inr [OF this] rs ds show ?thesis
    by (simp split del: if_split) blast
qed

lemma stored_ok_add:
  assumes "stored_ok s" and "add_try w b s = Inr s'"
  shows "stored_ok s'"
proof -
  from add_try_Inr [OF assms(2)] obtain ds a c k t where
    "a \<noteq> []" "c \<noteq> []" "k \<noteq> []" "taskDateObj ds (b ''taskTime'') = Num t"
    "ObjectId w \<notin> set (map task_oid (tasks s))"
    "s' = s\<lparr>tasks := tasks s @
            [\<lparr>task_oid = ObjectId w, activity = a, city = c, state = b ''state'',
              country = k, taskDate = t,
              taskTime = (if truthy (b ''taskTime'') then b ''taskTime'' else None),
              createdAt = Date_now w\<rparr>]\<rparr>"
    by blast
  with assms(1) taskDateObj_range [of ds "b ''taskTime''" t] show ?thesis
    by (simp add: stored_ok_def task_ok_def)
qed


lemma list_all_delete_one: "list_all P ts \<Longrightarrow> list_all P (delete_one i ts)"
  by (induction ts) auto

lemma stored_ok_delete: "stored_ok s \<Longrightarrow> stored_ok (snd (POST_delete v s))"
  by (auto simp add: stored_ok_def POST_delete_def findByIdAndDelete_def
      list_all_delete_one distinct_delete_one split: option.splits)

lemma stored_ok_POST_add: "stored_ok s \<Longrightarrow> stored_ok (snd (POST_add w b s))"
  by (auto simp add: POST_add_def stored_ok_add split: sum.splits)

lemma stored_ok_serve: "stored_ok s \<Longrightarrow> stored_ok (snd (serve w r s))"
  by (cases r) (simp_all add: stored_ok_POST_add stored_ok_delete)

lemma stored_ok_step: "stored_ok s \<Longrightarrow> stored_ok (step e s)"
  by (cases e) (simp_all add: stored_ok_serve, simp add: stored_ok_def)

lemma tasks_serve_frame:
  "(\<forall>b. r \<noteq> Post_add b) \<Longrightarrow> set (tasks (snd (serve w r s))) \<subseteq> set (tasks s)"
  using set_delete_one
  by (cases r) (auto simp add: POST_delete_def findByIdAndDelete_def split: option.splits)

lemma tasks_POST_add_frame:
  "\<exists>new. tasks (snd (POST_add w b s)) = tasks s @ new \<and> length new \<le> 1"
proof (cases "add_try w b s")
  case (Inl e)
  then show ?thesis by (simp add: POST_add_def)
next
  case (Inr s')
  from add_try_Inr [OF this] show ?thesis
    using Inr by (auto simp add: POST_add_def)
qed

text \<open>
  C9. Every run of the service keeps the store well formed: each persisted task has a
  non-empty activity, city and country and a date that is a time value (and ids stay
  distinct). Only \<open>POST /add\<close> writes: every other request leaves no task that was
  not there before, and \<open>POST /add\<close> leaves the stored tasks as they are and appends
  at most one.
\<close>

theorem stored_ok_run:
  assumes "stored_ok s"
  shows "stored_ok (run es s) \<and>
    (\<forall>w r. (\<forall>b. r \<noteq> Post_add b) \<longrightarrow> set (tasks (snd (serve w r s))) \<subseteq> set (tasks s)) \<and>
    (\<forall>w b. \<exists>new. tasks (snd (POST_add w b s)) = tasks s @ new \<and> length new \<le> 1)"
proof -
  have "stored_ok (run es s)"
    using assms by (induction es arbitrary: s) (simp_all add: stored_ok_step)
  then show ?thesis
    using tasks_serve_frame tasks_POST_add_frame by blast
qed




theorem stored_ok_run_witness:
  "stored_ok empty_store \<and> stored_ok (run four_requests empty_store) \<and>
   tasks (run four_requests empty_store) =
     [\<lparr>task_oid = ''65a4f0c2e1b2a3c4d5e6f703'', activity = ''Hike'', city = ''Denver'',
       state = None, country = ''US'', taskDate = 1705327200000, taskTime = Some ''14:00'',
       createdAt = 1704067200000\<rparr>]"
proof -
  have h: "stored_ok empty_store"
    by (simp add: stored_ok_def empty_store_def)
  have t: "tasks (run four_requests empty_store) =
     [\<lparr>task_oid = ''65a4f0c2e1b2a3c4d5e6f703'', activity = ''Hike'', city = ''Denver'',
       state = None, country = ''US'', taskDate = 1705327200000, taskTime = Some ''14:00'',
       createdAt = 1704067200000\<rparr>]"
    by code_simp
  show ?thesis
    using h t stored_ok_run [OF h, of four_requests] by blast
qed

subsection \<open>The instant that is stored\<close>

text \<open>
  The closed formula of \<^verbatim>\<open>DayFromYear\<close> counts the days of the years, and the table
  of \<^verbatim>\<open>MakeDay\<close> the days of the months.
\<close>

lemma div_succ:
  fixes n k :: int
  assumes "0 < k"
  shows "(n + 1) div k = n div k + (if (n + 1) mod k = 0 then 1 else 0)"
proof (cases "n mod k = k - 1")
  case True
  have eq: "n + 1 = k * (n div k + 1) + 0"
  proof -
    have "n = k * (n div k) + n mod k" by simp
    then have "n + 1 = k * (n div k) + k" using True by linarith
    then show ?thesis by (simp add: algebra_simps)
  qed
  have d: "(n + 1) div k = n div k + 1"
    by (rule int_div_pos_eq [OF eq]) (use assms in simp_all)
  have m: "(n + 1) mod k = 0"
    by (rule int_mod_pos_eq [OF eq]) (use assms in simp_all)
  show ?thesis using d m by simp
next
  case False
  have lt: "n mod k + 1 < k"
    using False assms pos_mod_bound [of k n] by linarith
  have ge: "0 \<le> n mod k + 1"
    using assms pos_mod_sign [of k n] by linarith
  have eq: "n + 1 = k * (n div k) + (n mod k + 1)"
    by simp
  have d: "(n + 1) div k = n div k"
    by (rule int_div_pos_eq [OF eq ge lt])
  have m: "(n + 1) mod k = n mod k + 1"
    by (rule int_mod_pos_eq [OF eq ge lt])
  have "n mod k + 1 \<noteq> 0"
    using assms pos_mod_sign [of k n] by linarith
  then show ?thesis using d m by simp
qed

lemma mod_shift: "(y - k * c) mod k = y mod (k :: int)"
  by (metis mod_mult_self1 diff_conv_add_uminus mult_minus_right mult.commute)

lemma DayFromYear_step: "DayFromYear (y + 1) = DayFromYear y + days_in_year y"
proof -
  define A where "A = (y - 1969) div 4"
  define B where "B = (y - 1901) div 100"
  define C where "C = (y - 1601) div 400"
  have a: "(y - 1968) div 4 = A + (if y mod 4 = 0 then 1 else 0)"
    unfolding A_def using div_succ [of 4 "y - 1969"] mod_shift [of y 4 492] by simp
  have b: "(y - 1900) div 100 = B + (if y mod 100 = 0 then 1 else 0)"
    unfolding B_def using div_succ [of 100 "y - 1901"] mod_shift [of y 100 19] by simp
  have c: "(y - 1600) div 400 = C + (if y mod 400 = 0 then 1 else 0)"
    unfolding C_def using div_succ [of 400 "y - 1601"] mod_shift [of y 400 4] by simp
  have d1: "y mod 100 = 0" if "y mod 400 = 0"
    using that mod_mod_cancel [of 100 400 y] by simp
  have d2: "y mod 4 = 0" if "y mod 100 = 0"
    using that mod_mod_cancel [of 4 100 y] by simp
  have l: "DayFromYear (y + 1) =
      365 * (y - 1969) + (y - 1968) div 4 - (y - 1900) div 100 + (y - 1600) div 400"
    by (simp add: DayFromYear_def)
  have r: "DayFromYear y = 365 * (y - 1970) + A - B + C"
    by (simp add: DayFromYear_def A_def B_def C_def)
  show ?thesis
  proof (cases "y mod 4 = 0")
    case False
    with d2 have n100: "y mod 100 \<noteq> 0" by auto
    with d1 have "y mod 400 \<noteq> 0" by auto
    with False n100 show ?thesis
      unfolding l r a b c by (simp add: days_in_year_def leap_year_def)
  next
    case m4: True
    show ?thesis
    proof (cases "y mod 100 = 0")
      case False
      with d1 have "y mod 400 \<noteq> 0" by auto
      with m4 False show ?thesis
        unfolding l r a b c by (simp add: days_in_year_def leap_year_def)
    next
      case True
      with m4 show ?thesis
        unfolding l r a b c by (cases "y mod 400 = 0") (simp_all add: days_in_year_def leap_year_def)
    qed
  qed
qed

lemma sum_years:
  "a \<le> b \<Longrightarrow> sum_list (map days_in_year [a..b - 1]) = DayFromYear b - DayFromYear a"
proof (induction b rule: int_ge_induct)
  case base
  then show ?case by simp
next
  case (step i)
  have "[a..i + 1 - 1] = [a..i - 1] @ [i]"
    using step.hyps upto_rec2 [of a i] by simp
  then show ?case
    using step.IH DayFromYear_step [of i] by simp
qed

lemma DayFromYear_1970: "DayFromYear 1970 = 0"
  by (simp add: DayFromYear_def)

lemma days_before_year_eq: "days_before_year y = DayFromYear y"
proof (cases "1970 \<le> y")
  case True
  then show ?thesis
    using sum_years [of 1970 y] by (simp add: days_before_year_def DayFromYear_1970)
next
  case False
  then have "y \<le> 1970" by simp
  from sum_years [OF this] False show ?thesis
    by (simp add: days_before_year_def DayFromYear_1970)
qed

lemma DaysInYear_eq: "(DaysInYear y = 366) = leap_year y"
  by (auto simp add: DaysInYear_def leap_year_def)

lemma days_before_month_eq:
  assumes "1 \<le> m" and "m \<le> 12"
  shows "DayFromMonth (m - 1) (DaysInYear y = 366) = days_before_month y m"
proof -
  from assms have "m \<in> set [1..12]" by simp
  also have "[1..12] = [1, 2, 3, 4, 5, 6, 7, 8, 9, 10, 11, 12 :: int]"
    by (simp add: upto_rec1)
  finally consider "m = 1" | "m = 2" | "m = 3" | "m = 4" | "m = 5" | "m = 6"
    | "m = 7" | "m = 8" | "m = 9" | "m = 10" | "m = 11" | "m = 12"
    by auto
  then show ?thesis
    by cases
      (simp_all add: DayFromMonth_def DaysInYear_eq days_before_month_def days_in_month_def
        upto_rec1)
qed


text \<open>An integer below \<open>2 ^ 53\<close> in absolute value is a double.\<close>

lemma bit_length_le: "0 \<le> a \<Longrightarrow> a < 2 ^ k \<Longrightarrow> bit_length a \<le> k"
proof (induction k arbitrary: a)
  case 0
  then show ?case by (simp add: bit_length.simps)
next
  case (Suc k)
  have "bit_length (a div 2) \<le> k"
    using Suc.prems by (intro Suc.IH) auto
  then show ?case
    by (subst bit_length.simps) simp
qed

lemma fl_exact:
  assumes "\<bar>n\<bar> < 9007199254740992"
  shows "fl n = Num n"
proof -
  have "bit_length \<bar>n\<bar> \<le> 53"
    using assms by (intro bit_length_le) simp_all
  then show ?thesis
    by (simp add: fl_def Let_def)
qed

text \<open>How \<^verbatim>\<open>split\<close> and \<^verbatim>\<open>parseInt\<close> read a string of digits.\<close>

lemma is_digit_facts:
  assumes "is_digit c"
  shows "\<not> isWhiteSpace c" and "c \<noteq> CHR ''-''" and "c \<noteq> CHR ''+''" and "c \<noteq> CHR ''x''"
    and "c \<noteq> CHR ''X''" and "c \<noteq> CHR '':''" and "digit_of c < 10"
    and "int (digit_of c) = digit_value c" and "0 \<le> digit_value c" and "digit_value c \<le> 9"
  using assms
  by (auto simp add: is_digit_def isWhiteSpace_def digit_of_def digit_value_def)

lemma parseInt_4_digits:
  assumes "is_digit a" and "is_digit b" and "is_digit c" and "is_digit d"
  shows "parseInt [a, b, c, d] =
     Num (1000 * digit_value a + 100 * digit_value b + 10 * digit_value c + digit_value d)"
  using is_digit_facts [OF assms(1)] is_digit_facts [OF assms(2)]
    is_digit_facts [OF assms(3)] is_digit_facts [OF assms(4)]
  by (simp add: parseInt_def Let_def) (subst fl_exact; simp)

lemma parseInt_2_digits:
  assumes "is_digit a" and "is_digit b"
  shows "parseInt [a, b] = Num (10 * digit_value a + digit_value b)"
  using is_digit_facts [OF assms(1)] is_digit_facts [OF assms(2)]
  by (simp add: parseInt_def Let_def) (subst fl_exact; simp)

lemma split_date:
  assumes "list_all is_digit [y1, y2, y3, y4, m1, m2, d1, d2]"
  shows "split CHR ''-'' [y1, y2, y3, y4, CHR ''-'', m1, m2, CHR ''-'', d1, d2] =
     [[y1, y2, y3, y4], [m1, m2], [d1, d2]]"
  using assms is_digit_facts(2) by simp

lemma split_time:
  assumes "list_all is_digit [h1, h2, m1, m2]"
  shows "split CHR '':'' [h1, h2, CHR '':'', m1, m2] = [[h1, h2], [m1, m2]]"
    and "split CHR '':'' [h1, h2] = [[h1, h2]]"
  using assms is_digit_facts(6) by simp_all


lemma date_of_string_Some:
  assumes "date_of_string ds = Some (y, m, d)"
  obtains y1 y2 y3 y4 m1 m2 d1 d2 where
    "ds = [y1, y2, y3, y4, CHR ''-'', m1, m2, CHR ''-'', d1, d2]"
    "list_all is_digit [y1, y2, y3, y4, m1, m2, d1, d2]"
    "y = 1000 * digit_value y1 + 100 * digit_value y2 + 10 * digit_value y3 + digit_value y4"
    "m = 10 * digit_value m1 + digit_value m2"
    "d = 10 * digit_value d1 + digit_value d2"
    "1 \<le> m" "m \<le> 12" "1 \<le> d" "d \<le> days_in_month y m"
  using assms
  by (cases ds rule: date_of_string.cases) (auto simp add: Let_def split: if_splits)

lemma time_of_string_Some:
  assumes "time_of_string ts = Some (h, mi)"
  obtains (hm) h1 h2 m1 m2 where
    "ts = [h1, h2, CHR '':'', m1, m2]" "list_all is_digit [h1, h2, m1, m2]"
    "h = 10 * digit_value h1 + digit_value h2" "mi = 10 * digit_value m1 + digit_value m2"
    "h \<le> 23" "mi \<le> 59"
  | (h) h1 h2 where
    "ts = [h1, h2]" "list_all is_digit [h1, h2]"
    "h = 10 * digit_value h1 + digit_value h2" "mi = 0" "h \<le> 23"
  using assms
  by (cases ts rule: time_of_string.cases) (auto simp add: Let_def split: if_splits)


lemma DayFromYear_bound:
  assumes "100 \<le> y" and "y \<le> 9999"
  shows "- 700000 \<le> DayFromYear y" and "DayFromYear y \<le> 3000000"
proof -
  have a: "(100 - 1969) div 4 \<le> (y - 1969) div 4" "(y - 1969) div 4 \<le> (9999 - 1969) div 4"
    using assms by (simp_all add: zdiv_mono1)
  have b: "(100 - 1901) div 100 \<le> (y - 1901) div 100"
    "(y - 1901) div 100 \<le> (9999 - 1901) div 100"
    using assms by (simp_all add: zdiv_mono1)
  have c: "(100 - 1601) div 400 \<le> (y - 1601) div 400"
    "(y - 1601) div 400 \<le> (9999 - 1601) div 400"
    using assms by (simp_all add: zdiv_mono1)
  show "- 700000 \<le> DayFromYear y" and "DayFromYear y \<le> 3000000"
    using a b c assms unfolding DayFromYear_def by simp_all
qed

lemma days_before_month_bound:
  assumes "1 \<le> m" and "m \<le> 12"
  shows "0 \<le> days_before_month y m" and "days_before_month y m \<le> 335"
proof -
  from assms have "m \<in> set [1..12]" by simp
  also have "[1..12] = [1, 2, 3, 4, 5, 6, 7, 8, 9, 10, 11, 12 :: int]"
    by (simp add: upto_rec1)
  finally consider "m = 1" | "m = 2" | "m = 3" | "m = 4" | "m = 5" | "m = 6"
    | "m = 7" | "m = 8" | "m = 9" | "m = 10" | "m = 11" | "m = 12"
    by auto
  then have "0 \<le> days_before_month y m \<and> days_before_month y m \<le> 335"
    by cases (simp_all add: days_before_month_def days_in_month_def upto_rec1)
  then show "0 \<le> days_before_month y m" and "days_before_month y m \<le> 335"
    by simp_all
qed

lemma days_in_month_bound: "days_in_month y m \<le> 31"
  by (simp add: days_in_month_def)

lemma d_add_exact: "\<bar>a + b\<bar> < 9007199254740992 \<Longrightarrow> d_add (Num a) (Num b) = Num (a + b)"
  by (simp add: fl_exact)

lemma d_mul_exact: "\<bar>a * b\<bar> < 9007199254740992 \<Longrightarrow> d_mul (Num a) (Num b) = Num (a * b)"
  by (simp add: fl_exact)

lemma Date_UTC_instant:
  assumes "100 \<le> y" and "y \<le> 9999" and "1 \<le> m" and "m \<le> 12"
    and "1 \<le> d" and "d \<le> days_in_month y m"
    and "0 \<le> h" and "h \<le> 23" and "0 \<le> mi" and "mi \<le> 59"
  shows "Date_UTC (Num y) (Num (m - 1)) (Num d) (Num h) (Num mi) = Num (utc_instant y m d h mi)"
proof -
  have full: "MakeFullYear (Num y) = Num y"
    using assms(1) by simp
  have dm: "(m - 1) div 12 = 0" "(m - 1) mod 12 = m - 1"
    using assms(3,4) by simp_all
  define D where "D = days_before_year y + days_before_month y m + d - 1"
  have Dlo: "- 700000 \<le> D" and Dhi: "D \<le> 3000400"
    using DayFromYear_bound [OF assms(1,2)] days_before_month_bound [OF assms(3,4), of y]
      days_in_month_bound [of y m] assms(5,6)
    by (simp_all add: D_def days_before_year_eq)
  have "MakeDay (Num y) (Num (m - 1)) (Num d) =
      d_add (Num (days_before_year y + days_before_month y m - 1)) (Num d)"
    using assms(1-4) dm
    by (simp add: Let_def days_before_year_eq days_before_month_eq)
  also have "\<dots> = Num D"
    using Dlo Dhi by (subst d_add_exact) (simp_all add: D_def)
  finally have day: "MakeDay (Num y) (Num (m - 1)) (Num d) = Num D" .
  have hours: "fl (h * 3600000) = Num (h * 3600000)"
    using assms(7,8) by (intro fl_exact) simp
  have minutes: "fl (mi * 60000) = Num (mi * 60000)"
    using assms(9,10) by (intro fl_exact) simp
  have sum: "fl (h * 3600000 + mi * 60000) = Num (h * 3600000 + mi * 60000)"
    using assms(7-10) by (intro fl_exact) simp
  have time: "MakeTime (Num h) (Num mi) (Num 0) (Num 0) = Num (h * 3600000 + mi * 60000)"
    by (simp add: MakeTime_def msPerHour_def msPerMinute_def msPerSecond_def
        hours minutes sum fl_exact)
  have days: "fl (D * 86400000) = Num (D * 86400000)"
    using Dlo Dhi by (intro fl_exact) simp
  have total: "fl (h * 3600000 + mi * 60000 + D * 86400000) =
      Num (h * 3600000 + mi * 60000 + D * 86400000)"
    using Dlo Dhi assms(7-10) by (intro fl_exact) simp
  have date: "MakeDate (Num D) (Num (h * 3600000 + mi * 60000)) =
      Num (h * 3600000 + mi * 60000 + D * 86400000)"
    by (simp add: MakeDate_def msPerDay_def days total)
  have tv: "h * 3600000 + mi * 60000 + D * 86400000 = utc_instant y m d h mi"
    by (simp add: utc_instant_def D_def algebra_simps)
  have "\<bar>h * 3600000 + mi * 60000 + D * 86400000\<bar> \<le> 8640000000000000"
    using Dlo Dhi assms(7-10) by simp
  then show ?thesis
    unfolding Date_UTC_def full day time date by (simp add: tv)
qed

lemma minus_one_Num: "\<bar>n - 1\<bar> < 9007199254740992 \<Longrightarrow> minus_one (Num n) = Num (n - 1)"
  by (simp add: minus_one_def fl_exact)

lemma TimeClip_idem: "TimeClip (TimeClip t) = TimeClip t"
  by (cases t) simp_all

lemma new_Date_Date_UTC: "new_Date (Date_UTC y m dt h mi) = Date_UTC y m dt h mi"
  by (simp add: new_Date_def Date_UTC_def TimeClip_idem)

lemma element_simps:
  "element (x # xs) 1 = element xs 0" "element (x # y # xs) 2 = element xs 0"
  by (simp_all add: numeral_2_eq_2)

lemma parseInt_0: "parseInt ''0'' = Num 0"
  by (simp add: parseInt_def isWhiteSpace_def digit_of_def fl_exact)

text \<open>
  For a valid date from the year 0100 on, with no time, a valid \<open>HH:MM\<close> or a valid
  \<open>HH\<close> alone, the date object that \<open>POST /add\<close> builds is the instant the
  calendar gives.
\<close>

lemma taskDateObj_valid:
  assumes "date_of_string ds = Some (y, m, d)" and "100 \<le> y"
    and "expected_taskDate ds tv = Some t"
  shows "taskDateObj ds tv = Num t"
proof -
  from assms(1) obtain y1 y2 y3 y4 m1 m2 d1 d2 where
    ds: "ds = [y1, y2, y3, y4, CHR ''-'', m1, m2, CHR ''-'', d1, d2]" and
    dig: "list_all is_digit [y1, y2, y3, y4, m1, m2, d1, d2]" and
    y: "y = 1000 * digit_value y1 + 100 * digit_value y2 + 10 * digit_value y3 + digit_value y4" and
    m: "m = 10 * digit_value m1 + digit_value m2" and
    d: "d = 10 * digit_value d1 + digit_value d2" and
    rng: "1 \<le> m" "m \<le> 12" "1 \<le> d" "d \<le> days_in_month y m"
    by (rule date_of_string_Some)
  have parts: "split CHR ''-'' ds = [[y1, y2, y3, y4], [m1, m2], [d1, d2]]"
    unfolding ds by (rule split_date [OF dig])
  have py: "parseInt [y1, y2, y3, y4] = Num y"
    using dig by (simp add: parseInt_4_digits y)
  have pm: "parseInt [m1, m2] = Num m"
    using dig by (simp add: parseInt_2_digits m)
  have pd: "parseInt [d1, d2] = Num d"
    using dig by (simp add: parseInt_2_digits d)
  have mm: "minus_one (Num m) = Num (m - 1)"
    using rng(1,2) by (intro minus_one_Num) simp
  have y_hi: "y \<le> 9999"
    using dig is_digit_facts(10) [of y1] is_digit_facts(10) [of y2]
      is_digit_facts(10) [of y3] is_digit_facts(10) [of y4]
    by (simp add: y)
  have utc: "Date_UTC (Num y) (Num (m - 1)) (Num d) (Num h) (Num mi) =
      Num (utc_instant y m d h mi)"
    if "0 \<le> h" "h \<le> 23" "0 \<le> mi" "mi \<le> 59" for h mi
    using Date_UTC_instant [OF assms(2) y_hi rng that] .
  have no_time: "Date_UTC (Num y) (Num (m - 1)) (Num d) (Num 0) (Num 0) =
      Num (utc_instant y m d 0 0)"
    by (rule utc) simp_all
  show ?thesis
  proof (cases "tv = None \<or> tv = Some []")
    case True
    then have "t = utc_instant y m d 0 0"
      using assms(1,3) by (auto simp add: expected_taskDate_def)
    with True no_time show ?thesis
      by (auto simp add: taskDateObj_def parts parseInt_value_def py pm pd element_simps
          new_Date_Date_UTC mm)
  next
    case False
    then obtain ts where ts: "tv = Some ts" "ts \<noteq> []"
      by (cases tv) auto
    with assms(1,3) obtain h mi where
      tm: "time_of_string ts = Some (h, mi)" and t: "t = utc_instant y m d h mi"
      by (auto simp add: expected_taskDate_def split: option.splits)
    from tm show ?thesis
    proof (cases rule: time_of_string_Some)
      case (hm h1 h2 n1 n2)
      have tparts: "split CHR '':'' ts = [[h1, h2], [n1, n2]]"
        unfolding hm(1) by (rule split_time(1) [OF hm(2)])
      have ph: "parseInt [h1, h2] = Num h" and pn: "parseInt [n1, n2] = Num mi"
        using hm(2) by (simp_all add: parseInt_2_digits hm(3,4))
      have "0 \<le> h" "0 \<le> mi"
        using hm(2) is_digit_facts(9) [of h1] is_digit_facts(9) [of h2]
          is_digit_facts(9) [of n1] is_digit_facts(9) [of n2]
        by (simp_all add: hm(3,4))
      from utc [OF this(1) hm(5) this(2) hm(6)] show ?thesis
        using ts
        by (simp add: taskDateObj_def parts tparts parseInt_value_def py pm pd ph pn
            new_Date_Date_UTC mm
            element_simps t)
    next
      case (h h1 h2)
      have tparts: "split CHR '':'' ts = [[h1, h2]]"
        unfolding h(1) using h(2) is_digit_facts(6) by simp
      have ph: "parseInt [h1, h2] = Num h"
        using h(2) by (simp add: parseInt_2_digits h(3))
      have "0 \<le> h"
        using h(2) is_digit_facts(9) [of h1] is_digit_facts(9) [of h2]
        by (simp add: h(3))
      from utc [OF this h(5), of 0] show ?thesis
        using ts
        by (simp add: taskDateObj_def parts tparts parseInt_value_def py pm pd ph parseInt_0
            new_Date_Date_UTC mm
            element_simps t h(4))
    qed
  qed
qed

lemma find_append_new:
  "i \<notin> set (map task_oid ts) \<Longrightarrow> task_oid n = i \<Longrightarrow>
   find (\<lambda>t. task_oid t = i) (ts @ [n]) = Some n"
  by (induction ts) auto

text \<open>
  On a connected store, creating a task with such a date and time, non-empty activity,
  city and country and a fresh, well-formed id succeeds, and fetching the task by its id gives a
  task whose \<open>taskDate\<close> is that instant.
\<close>

lemma POST_add_stores_instant:
  assumes "readyState s = 1" and "\<not> query_fails s"
    and "ObjectId w \<notin> set (map task_oid (tasks s))"
    and "truthy (b ''activity'')" and "truthy (b ''city'')" and "truthy (b ''country'')"
    and "b ''taskDate'' = Some ds" and "date_of_string ds = Some (y, m, d)" and "100 \<le> y"
    and "expected_taskDate ds (b ''taskTime'') = Some t"
    and "castObjectId (ObjectId w) = Some (ObjectId w)"
  shows "\<exists>tk. fst (POST_add w b s) = Redirect ''/tasks'' \<and>
    findById (ObjectId w) (snd (POST_add w b s)) = Inr (Some tk) \<and> taskDate tk = t"
proof -
  have date: "taskDateObj ds (b ''taskTime'') = Num t"
    using assms(8-10) by (rule taskDateObj_valid)
  from assms(4-6) obtain a c k where
    acts: "b ''activity'' = Some a" "a \<noteq> []" "b ''city'' = Some c" "c \<noteq> []"
      "b ''country'' = Some k" "k \<noteq> []"
    by (cases "b ''activity''"; cases "b ''city''"; cases "b ''country''") auto
  define n where "n = \<lparr>task_oid = ObjectId w, activity = a, city = c, state = b ''state'',
      country = k, taskDate = t,
      taskTime = (if truthy (b ''taskTime'') then b ''taskTime'' else None),
      createdAt = Date_now w\<rparr>"
  have "add_try w b s = Inr (s\<lparr>tasks := tasks s @ [n]\<rparr>)"
    using assms(1-3,7) acts date
    by (simp add: add_try_def save_def validate_def n_def)
  then have post: "POST_add w b s = (Redirect ''/tasks'', s\<lparr>tasks := tasks s @ [n]\<rparr>)"
    by (simp add: POST_add_def)
  have "find (\<lambda>t. task_oid t = ObjectId w) (tasks s @ [n]) = Some n"
    by (rule find_append_new [OF assms(3)]) (simp add: n_def)
  then have "findById (ObjectId w) (s\<lparr>tasks := tasks s @ [n]\<rparr>) = Inr (Some n)"
    using assms(2,11) by (simp add: findById_def)
  moreover have "taskDate n = t"
    by (simp add: n_def)
  ultimately show ?thesis
    using post by simp
qed

text \<open>
  C2. A valid date with a year below 0100 is not stored as the instant it denotes:
  \<^verbatim>\<open>Date.UTC\<close> reads a year from 0 to 99 as 1900 plus the year. The form with the
  date \<open>0050-06-15\<close> and no time is accepted, and the task is dated 1950-06-15
  (\<open>-616896000000\<close> ms), while midnight UTC of 15 June of the year 50 is
  \<open>-60575040000000\<close> ms.
\<close>

theorem POST_add_year_below_100:
  "fst (POST_add (sample_world (\<lambda>u. Inr clear_sky) None)
     (body_of [(''activity'', ''Hike''), (''city'', ''Denver''), (''country'', ''US''),
               (''taskDate'', ''0050-06-15'')]) empty_store) = Redirect ''/tasks'' \<and>
   map taskDate (tasks (snd (POST_add (sample_world (\<lambda>u. Inr clear_sky) None)
     (body_of [(''activity'', ''Hike''), (''city'', ''Denver''), (''country'', ''US''),
               (''taskDate'', ''0050-06-15'')]) empty_store))) = [- 616896000000] \<and>
   date_of_string ''0050-06-15'' = Some (50, 6, 15) \<and>
   expected_taskDate ''0050-06-15'' None = Some (- 60575040000000)"
proof -
  have stored: "POST_add (sample_world (\<lambda>u. Inr clear_sky) None)
     (body_of [(''activity'', ''Hike''), (''city'', ''Denver''), (''country'', ''US''),
               (''taskDate'', ''0050-06-15'')]) empty_store =
     (Redirect ''/tasks'',
      empty_store\<lparr>tasks :=
        [\<lparr>task_oid = ''65a4f0c2e1b2a3c4d5e6f703'', activity = ''Hike'', city = ''Denver'',
          state = None, country = ''US'', taskDate = - 616896000000, taskTime = None,
          createdAt = 1704067200000\<rparr>]\<rparr>)"
    by code_simp
  have date: "date_of_string ''0050-06-15'' = Some (50, 6, 15)"
    by code_simp
  have "utc_instant 50 6 15 0 0 = - 60575040000000"
    by (simp add: utc_instant_def days_before_year_eq DayFromYear_def days_before_month_def
        days_in_month_def leap_year_def upto_rec1)
  then have "expected_taskDate ''0050-06-15'' None = Some (- 60575040000000)"
    by (simp only: expected_taskDate_def date option.case prod.case)
  with stored date show ?thesis
    by simp
qed

end
